theory Spec2Isabelle
  imports Main
begin

section \<open>The virtual cursor overlay controller\<close>

text \<open>
  A shallow embedding of the class \<open>VirtualCursorView\<close> (the one source file
  with logic). The controller's private fields, the overlay element it owns, the
  part of the host editor (\<open>EditorView\<close>) it reads, and the part of the browser
  window it uses (timers, animation frames, listeners) form one state value;
  every method is a function from state to state.

  JavaScript numbers are kept abstract: the rectangle coordinates have a type
  \<open>'n\<close> of sort \<open>minus\<close>, and the only arithmetic the source performs on them
  is its subtraction. Logical positions (\<open>head\<close>) are natural numbers.
\<close>

subsection \<open>Constants\<close>

definition VIRTUAL_CURSOR_CLASS :: string where
  "VIRTUAL_CURSOR_CLASS = ''virtual-cursor''"

definition VIRTUAL_CURSOR_PHASE_CLASS :: string where
  "VIRTUAL_CURSOR_PHASE_CLASS = ''cursor-phase''"

definition VIRTUAL_CURSOR_ENABLED_CLASS :: string where
  "VIRTUAL_CURSOR_ENABLED_CLASS = ''virtual-cursor-enabled''"

definition PHASE_DELAY :: nat where
  "PHASE_DELAY = 200"

subsection \<open>Data\<close>

text \<open>
  \<open>UpdateOptions\<close> has two optional booleans (\<open>None\<close> is \<open>undefined\<close>); its field
  names carry the prefix \<open>opt_\<close> because \<open>MeasurementOptions\<close> has fields of the same
  names. \<open>truthy\<close> is JavaScript's truthiness of such a field.
\<close>

record UpdateOptions =
  opt_forcePosition :: "bool option"
  opt_restartPhase :: "bool option"

record MeasurementOptions =
  forcePosition :: bool
  restartPhase :: bool

definition truthy :: "bool option \<Rightarrow> bool" where
  "truthy b = (b = Some True)"

text \<open>
  A rectangle as the host reports it (\<open>Rect\<close>, and the fields of \<open>DOMRect\<close> the
  source reads). The field \<open>top\<close> is named \<open>top_r\<close>: \<open>top\<close> is a constant of HOL.
\<close>

record 'n Rect =
  top_r :: 'n
  bottom :: 'n
  left :: 'n
  right :: 'n

record 'n CursorMeasurement =
  visible :: bool
  rect :: "'n Rect option"
  hostRect :: "'n Rect option"
  head :: nat
  options :: MeasurementOptions

text \<open>
  The outcome of \<open>view.coordsAtPos(head, -1)\<close>: the host throws, returns \<open>null\<close>,
  or returns a rectangle.
\<close>

datatype 'n coords = Throws | Null | Coords "'n Rect"

text \<open>
  What the controller reads from, and asks of, the host editor:
  \<open>view.hasFocus\<close>, \<open>view.state.selection.main.empty\<close> and \<open>.head\<close>,
  \<open>view.coordsAtPos\<close>, \<open>view.scrollDOM.getBoundingClientRect()\<close>, the class list of
  \<open>view.dom\<close>, whether \<open>ownerDocument.defaultView\<close> is non-null, and
  \<open>view.requestMeasure\<close>. \<open>measureRequests\<close> counts the submitted read/write pairs
  the host has not run yet; \<open>measured\<close> is the snapshot the host last received
  from a read and handed to the paired write.
\<close>

record 'n EditorView =
  hasFocus :: bool
  main_empty :: bool
  main_head :: nat
  coordsAtPos :: "nat \<Rightarrow> int \<Rightarrow> 'n coords"
  scrollDOM_rect :: "'n Rect"
  dom_classList :: "string list"
  defaultView :: bool
  measureRequests :: nat
  measured :: "'n CursorMeasurement option"

text \<open>
  A value assigned to a length property of the element's style: a literal
  string, or the template literal \<open>`${x}px`\<close> for a number \<open>x\<close>.
\<close>

datatype 'n css = Str string | Px 'n

text \<open>The overlay element: its class list, the style properties the source assigns,
  and whether it is attached to the scroll container.\<close>

record 'n HTMLDivElement =
  classList :: "string list"
  style_display :: string
  style_position :: string
  style_left :: "'n css"
  style_top :: "'n css"
  style_height :: "'n css"
  attached :: bool

text \<open>
  The browser window: a clock, the pending timeouts of this controller (handle and
  due time; every timeout the source sets has the same callback), the number of
  queued animation-frame callbacks, the registered event listeners of this
  controller, and whether \<open>ResizeObserver\<close> is defined.
\<close>

datatype listener = SelectionChangeL | ScrollL | WindowResizeL | BlurL | FocusL

record Window =
  now :: nat
  nextTimer :: nat
  timeouts :: "(nat \<times> nat) list"
  frames :: nat
  listeners :: "listener list"
  resizeObserverDefined :: bool

datatype observer = Observing | Disconnected

record 'n VirtualCursorView =
  cursor :: "'n HTMLDivElement"
  phaseTimer :: "nat option"
  lastHead :: "nat option"
  resizeObserver :: "observer option"
  cleanup :: "listener list"
  scheduled :: bool
  pendingOptions :: "MeasurementOptions option"
  view :: "'n EditorView"
  window :: Window

subsection \<open>Host and browser primitives\<close>

definition classList_add :: "string \<Rightarrow> string list \<Rightarrow> string list" where
  "classList_add c cs = (if c \<in> set cs then cs else cs @ [c])"

definition classList_remove :: "string \<Rightarrow> string list \<Rightarrow> string list" where
  "classList_remove c cs = removeAll c cs"

definition setTimeout :: "nat \<Rightarrow> Window \<Rightarrow> nat \<times> Window" where
  "setTimeout delay win =
     (nextTimer win,
      win\<lparr>timeouts := timeouts win @ [(nextTimer win, now win + delay)],
          nextTimer := nextTimer win + 1\<rparr>)"

definition clearTimeout :: "nat \<Rightarrow> Window \<Rightarrow> Window" where
  "clearTimeout t win = win\<lparr>timeouts := filter (\<lambda>p. fst p \<noteq> t) (timeouts win)\<rparr>"

definition requestAnimationFrame :: "Window \<Rightarrow> Window" where
  "requestAnimationFrame win = win\<lparr>frames := frames win + 1\<rparr>"

definition removeEventListener :: "listener \<Rightarrow> Window \<Rightarrow> Window" where
  "removeEventListener l win = win\<lparr>listeners := removeAll l (listeners win)\<rparr>"

definition requestMeasure :: "'n EditorView \<Rightarrow> 'n EditorView" where
  "requestMeasure v = v\<lparr>measureRequests := measureRequests v + 1\<rparr>"

definition isCollapsedSelection :: "'n EditorView \<Rightarrow> bool" where
  "isCollapsedSelection v = main_empty v"

subsection \<open>The methods of the controller\<close>

definition hideCursor :: "'n VirtualCursorView \<Rightarrow> 'n VirtualCursorView" where
  "hideCursor w =
     (let w1 = w\<lparr>cursor := (cursor w)\<lparr>style_display := ''none''\<rparr>\<rparr>;
          w2 = w1\<lparr>cursor := (cursor w1)
                 \<lparr>classList := classList_remove VIRTUAL_CURSOR_PHASE_CLASS (classList (cursor w1))\<rparr>\<rparr>
      in case phaseTimer w2 of
           None \<Rightarrow> w2
         | Some t \<Rightarrow> w2\<lparr>window := clearTimeout t (window w2), phaseTimer := None\<rparr>)"

definition restartPhaseTimer :: "'n VirtualCursorView \<Rightarrow> 'n VirtualCursorView" where
  "restartPhaseTimer w =
     (let w1 = w\<lparr>cursor := (cursor w)
                 \<lparr>classList := classList_remove VIRTUAL_CURSOR_PHASE_CLASS (classList (cursor w))\<rparr>\<rparr>;
          w2 = (case phaseTimer w1 of
                  None \<Rightarrow> w1
                | Some t \<Rightarrow> w1\<lparr>window := clearTimeout t (window w1)\<rparr>);
          (t', win') = setTimeout PHASE_DELAY (window w2)
      in w2\<lparr>window := win', phaseTimer := Some t'\<rparr>)"

text \<open>The callback that \<open>restartPhaseTimer\<close> hands to \<open>setTimeout\<close>.\<close>

definition phaseCallback :: "'n VirtualCursorView \<Rightarrow> 'n VirtualCursorView" where
  "phaseCallback w =
     w\<lparr>cursor := (cursor w)
          \<lparr>classList := classList_add VIRTUAL_CURSOR_PHASE_CLASS (classList (cursor w))\<rparr>,
       phaseTimer := None\<rparr>"

definition scheduleMeasurement ::
  "UpdateOptions \<Rightarrow> 'n VirtualCursorView \<Rightarrow> 'n VirtualCursorView" where
  "scheduleMeasurement opts w =
     (if \<not> hasFocus (view w) \<or> \<not> isCollapsedSelection (view w) then
        (hideCursor w)\<lparr>lastHead := None\<rparr>
      else
        let current = (case pendingOptions w of
                         Some p \<Rightarrow> p
                       | None \<Rightarrow> \<lparr>forcePosition = False, restartPhase = False\<rparr>);
            current1 = (if truthy (opt_forcePosition opts)
                        then current\<lparr>forcePosition := True\<rparr> else current);
            current2 = (if truthy (opt_restartPhase opts)
                        then current1\<lparr>restartPhase := True\<rparr> else current1);
            w1 = w\<lparr>pendingOptions := Some current2\<rparr>
        in if \<not> scheduled w1
           then w1\<lparr>scheduled := True, view := requestMeasure (view w1)\<rparr>
           else w1)"

definition readMeasurement ::
  "'n VirtualCursorView \<Rightarrow> 'n CursorMeasurement \<times> 'n VirtualCursorView" where
  "readMeasurement w =
     (let opts = (case pendingOptions w of
                    Some p \<Rightarrow> p
                  | None \<Rightarrow> \<lparr>forcePosition = False, restartPhase = False\<rparr>);
          w1 = w\<lparr>pendingOptions := None, scheduled := False\<rparr>;
          v = view w1
      in if \<not> hasFocus v \<or> \<not> isCollapsedSelection v then
           (\<lparr>visible = False, rect = None, hostRect = None,
             head = main_head v, options = opts\<rparr>, w1)
         else
           let h = main_head v;
               r = (case coordsAtPos v h (- 1) of
                      Throws \<Rightarrow> None
                    | Null \<Rightarrow> None
                    | Coords c \<Rightarrow> Some c)
           in case r of
                None \<Rightarrow>
                  (\<lparr>visible = False, rect = None, hostRect = None,
                    head = h, options = opts\<rparr>, w1)
              | Some c \<Rightarrow>
                  (\<lparr>visible = True, rect = Some c, hostRect = Some (scrollDOM_rect v),
                    head = h, options = opts\<rparr>, w1))"

definition applyMeasurement ::
  "('n::minus) CursorMeasurement \<Rightarrow> 'n VirtualCursorView \<Rightarrow> 'n VirtualCursorView" where
  "applyMeasurement data w =
     (case (visible data, rect data, hostRect data) of
        (True, Some r, Some hr) \<Rightarrow>
          (let headChanged = (lastHead w \<noteq> Some (head data))
           in if \<not> forcePosition (options data) \<and> \<not> headChanged then w
              else
                let w1 = w\<lparr>lastHead := Some (head data)\<rparr>;
                    top = top_r r - top_r hr;
                    left' = left r - left hr;
                    height = bottom r - top_r r;
                    w2 = w1\<lparr>cursor := (cursor w1)
                            \<lparr>style_display := ''block'',
                             style_height := Px height,
                             style_top := Px top,
                             style_left := Px left'\<rparr>\<rparr>
                in if restartPhase (options data) \<or> headChanged
                   then restartPhaseTimer w2 else w2)
      | _ \<Rightarrow> (hideCursor w)\<lparr>lastHead := None\<rparr>)"

record ViewUpdate =
  docChanged :: bool
  selectionSet :: bool
  viewportChanged :: bool
  geometryChanged :: bool
  focusChanged :: bool

definition update :: "ViewUpdate \<Rightarrow> 'n VirtualCursorView \<Rightarrow> 'n VirtualCursorView" where
  "update u w =
     (if docChanged u \<or> selectionSet u \<or> viewportChanged u \<or> geometryChanged u
         \<or> focusChanged u
      then scheduleMeasurement
             \<lparr>opt_forcePosition =
                Some (viewportChanged u \<or> geometryChanged u \<or> focusChanged u
                      \<or> docChanged u \<or> selectionSet u),
              opt_restartPhase = Some (docChanged u \<or> selectionSet u)\<rparr> w
      else w)"

definition destroy :: "'n VirtualCursorView \<Rightarrow> 'n VirtualCursorView" where
  "destroy w =
     (let w1 = w\<lparr>window := fold removeEventListener (cleanup w) (window w)\<rparr>;
          w2 = (case resizeObserver w1 of
                  None \<Rightarrow> w1
                | Some _ \<Rightarrow> w1\<lparr>resizeObserver := Some Disconnected\<rparr>);
          w3 = (case phaseTimer w2 of
                  None \<Rightarrow> w2
                | Some t \<Rightarrow> w2\<lparr>window := clearTimeout t (window w2), phaseTimer := None\<rparr>);
          w4 = w3\<lparr>pendingOptions := None, scheduled := False\<rparr>;
          w5 = w4\<lparr>cursor := (cursor w4)\<lparr>attached := False\<rparr>\<rparr>
      in w5\<lparr>view := (view w5)
               \<lparr>dom_classList :=
                  classList_remove VIRTUAL_CURSOR_ENABLED_CLASS (dom_classList (view w5))\<rparr>\<rparr>)"

text \<open>
  The constructor, given the host view and the window. The five listener
  registrations push one cleanup closure each (the one for the window's
  \<open>resize\<close> also when \<open>defaultView\<close> is null, where nothing was registered).
\<close>

definition construct :: "'n EditorView \<Rightarrow> Window \<Rightarrow> 'n VirtualCursorView" where
  "construct v win =
     (let cur = \<lparr>classList = [VIRTUAL_CURSOR_CLASS], style_display = ''none'',
                 style_position = ''absolute'', style_left = Str ''0'',
                 style_top = Str ''0'', style_height = Str [], attached = True\<rparr>;
          v1 = v\<lparr>dom_classList := classList_add VIRTUAL_CURSOR_ENABLED_CLASS (dom_classList v)\<rparr>;
          registered = [SelectionChangeL, ScrollL]
                       @ (if defaultView v then [WindowResizeL] else [])
                       @ [BlurL, FocusL];
          win1 = win\<lparr>listeners := listeners win @ registered\<rparr>;
          w = \<lparr>cursor = cur, phaseTimer = None, lastHead = None,
               resizeObserver = (if resizeObserverDefined win then Some Observing else None),
               cleanup = [SelectionChangeL, ScrollL, WindowResizeL, BlurL, FocusL],
               scheduled = False, pendingOptions = None, view = v1, window = win1\<rparr>
      in scheduleMeasurement \<lparr>opt_forcePosition = Some True, opt_restartPhase = Some True\<rparr> w)"

text \<open>The event handlers the constructor registers.\<close>

definition onSelectionChange :: "'n VirtualCursorView \<Rightarrow> 'n VirtualCursorView" where
  "onSelectionChange w =
     (if hasFocus (view w) then w\<lparr>window := requestAnimationFrame (window w)\<rparr> else w)"

text \<open>The callback \<open>onSelectionChange\<close> hands to \<open>requestAnimationFrame\<close>.\<close>

definition selectionFrame :: "'n VirtualCursorView \<Rightarrow> 'n VirtualCursorView" where
  "selectionFrame w =
     scheduleMeasurement \<lparr>opt_forcePosition = None, opt_restartPhase = Some True\<rparr> w"

definition onScroll :: "'n VirtualCursorView \<Rightarrow> 'n VirtualCursorView" where
  "onScroll w = scheduleMeasurement \<lparr>opt_forcePosition = Some True, opt_restartPhase = None\<rparr> w"

definition onResizeObserved :: "'n VirtualCursorView \<Rightarrow> 'n VirtualCursorView" where
  "onResizeObserved w =
     scheduleMeasurement \<lparr>opt_forcePosition = Some True, opt_restartPhase = None\<rparr> w"

definition onWindowResize :: "'n VirtualCursorView \<Rightarrow> 'n VirtualCursorView" where
  "onWindowResize w =
     scheduleMeasurement \<lparr>opt_forcePosition = Some True, opt_restartPhase = None\<rparr> w"

definition onBlur :: "'n VirtualCursorView \<Rightarrow> 'n VirtualCursorView" where
  "onBlur w = hideCursor w"

definition onFocus :: "'n VirtualCursorView \<Rightarrow> 'n VirtualCursorView" where
  "onFocus w =
     scheduleMeasurement \<lparr>opt_forcePosition = Some True, opt_restartPhase = Some True\<rparr> w"

subsection \<open>The host's side: events\<close>

text \<open>
  One layout flush of the host: it takes a submitted request and runs its read
  and then its write, with the snapshot the read returned.
\<close>

definition flush :: "('n::minus) VirtualCursorView \<Rightarrow> 'n VirtualCursorView" where
  "flush w =
     (if measureRequests (view w) = 0 then w
      else
        let w1 = w\<lparr>view := (view w)\<lparr>measureRequests := measureRequests (view w) - 1\<rparr>\<rparr>;
            (m, w2) = readMeasurement w1;
            w3 = applyMeasurement m w2
        in w3\<lparr>view := (view w3)\<lparr>measured := Some m\<rparr>\<rparr>)"

text \<open>A pending timeout fires once its due time has come; a cleared one never does.\<close>

definition fireTimeout :: "nat \<Rightarrow> 'n VirtualCursorView \<Rightarrow> 'n VirtualCursorView" where
  "fireTimeout t w =
     (case find (\<lambda>p. fst p = t) (timeouts (window w)) of
        None \<Rightarrow> w
      | Some p \<Rightarrow>
          if snd p \<le> now (window w)
          then phaseCallback (w\<lparr>window := clearTimeout t (window w)\<rparr>)
          else w)"

text \<open>
  Everything that can happen to the controller after its construction: the
  browser delivers an event to a registered listener, runs a queued animation
  frame, fires a timeout or lets time pass; the host editor calls \<open>update\<close> or
  \<open>destroy\<close>, runs a layout flush, or changes what the controller reads from it
  (focus, selection, layout).
\<close>

datatype 'n event =
    SelectionChange | AnimationFrame | Scroll | ResizeObserved | WindowResize
  | Blur | Focus | Update ViewUpdate | Destroy | Flush | Timeout nat | Tick nat
  | HostFocus bool | HostSelection bool nat
  | HostLayout "nat \<Rightarrow> int \<Rightarrow> 'n coords" "'n Rect"

definition listening :: "listener \<Rightarrow> 'n VirtualCursorView \<Rightarrow> bool" where
  "listening l w = (l \<in> set (listeners (window w)))"

fun step :: "('n::minus) event \<Rightarrow> 'n VirtualCursorView \<Rightarrow> 'n VirtualCursorView" where
  "step SelectionChange w = (if listening SelectionChangeL w then onSelectionChange w else w)"
| "step AnimationFrame w =
     (if frames (window w) = 0 then w
      else selectionFrame (w\<lparr>window := (window w)\<lparr>frames := frames (window w) - 1\<rparr>\<rparr>))"
| "step Scroll w = (if listening ScrollL w then onScroll w else w)"
| "step ResizeObserved w =
     (if resizeObserver w = Some Observing then onResizeObserved w else w)"
| "step WindowResize w = (if listening WindowResizeL w then onWindowResize w else w)"
| "step Blur w = (if listening BlurL w then onBlur w else w)"
| "step Focus w = (if listening FocusL w then onFocus w else w)"
| "step (Update u) w = update u w"
| "step Destroy w = destroy w"
| "step Flush w = flush w"
| "step (Timeout t) w = fireTimeout t w"
| "step (Tick d) w = w\<lparr>window := (window w)\<lparr>now := now (window w) + d\<rparr>\<rparr>"
| "step (HostFocus b) w = w\<lparr>view := (view w)\<lparr>hasFocus := b\<rparr>\<rparr>"
| "step (HostSelection e h) w = w\<lparr>view := (view w)\<lparr>main_empty := e, main_head := h\<rparr>\<rparr>"
| "step (HostLayout f r) w = w\<lparr>view := (view w)\<lparr>coordsAtPos := f, scrollDOM_rect := r\<rparr>\<rparr>"

fun run :: "('n::minus) event list \<Rightarrow> 'n VirtualCursorView \<Rightarrow> 'n VirtualCursorView" where
  "run [] w = w"
| "run (e # es) w = run es (step e w)"

subsection \<open>Definitions used by the statements below\<close>

text \<open>The overlay is visible when the display it was last given is \<open>block\<close>.\<close>

definition overlay_visible :: "'n VirtualCursorView \<Rightarrow> bool" where
  "overlay_visible w = (style_display (cursor w) = ''block'')"

definition overlay_hidden :: "'n VirtualCursorView \<Rightarrow> bool" where
  "overlay_hidden w = (style_display (cursor w) = ''none'')"

definition dimmed :: "'n VirtualCursorView \<Rightarrow> bool" where
  "dimmed w = (VIRTUAL_CURSOR_PHASE_CLASS \<in> set (classList (cursor w)))"

text \<open>The pending intents after one more trigger with options \<open>opts\<close>.\<close>

definition merged :: "UpdateOptions \<Rightarrow> MeasurementOptions option \<Rightarrow> MeasurementOptions" where
  "merged opts p =
     \<lparr>forcePosition = ((case p of None \<Rightarrow> False | Some q \<Rightarrow> forcePosition q)
                        \<or> truthy (opt_forcePosition opts)),
      restartPhase = ((case p of None \<Rightarrow> False | Some q \<Rightarrow> restartPhase q)
                       \<or> truthy (opt_restartPhase opts))\<rparr>"

text \<open>The component-wise disjunction of the intents of a list of triggers.\<close>

definition intents_or :: "UpdateOptions list \<Rightarrow> MeasurementOptions" where
  "intents_or os =
     \<lparr>forcePosition = list_ex (\<lambda>opts. truthy (opt_forcePosition opts)) os,
      restartPhase = list_ex (\<lambda>opts. truthy (opt_restartPhase opts)) os\<rparr>"

text \<open>The state a write leaves when it repositions the overlay, before the timer.\<close>

definition positioned ::
  "('n::minus) Rect \<Rightarrow> 'n Rect \<Rightarrow> nat \<Rightarrow> 'n VirtualCursorView \<Rightarrow> 'n VirtualCursorView" where
  "positioned r hr h w =
     w\<lparr>lastHead := Some h,
       cursor := (cursor w)\<lparr>style_display := ''block'',
                            style_height := Px (bottom r - top_r r),
                            style_top := Px (top_r r - top_r hr),
                            style_left := Px (left r - left hr)\<rparr>\<rparr>"

text \<open>
  A concrete host for examples: focused, with a collapsed selection at position 0,
  every position laid out (eight units per character), and a fresh window.
\<close>

definition example_coords :: "nat \<Rightarrow> int \<Rightarrow> int coords" where
  "example_coords p side =
     Coords \<lparr>top_r = 40, bottom = 58, left = 25 + 8 * int p, right = 25 + 8 * int p\<rparr>"

definition example_host :: "int EditorView" where
  "example_host =
     \<lparr>hasFocus = True, main_empty = True, main_head = 0, coordsAtPos = example_coords,
      scrollDOM_rect = \<lparr>top_r = 10, bottom = 410, left = 5, right = 605\<rparr>,
      dom_classList = [''cm-editor''], defaultView = True, measureRequests = 0,
      measured = None\<rparr>"

definition example_window :: Window where
  "example_window =
     \<lparr>now = 0, nextTimer = 1, timeouts = [], frames = 0, listeners = [],
      resizeObserverDefined = True\<rparr>"

text \<open>
  The example controller after its first layout flush (overlay shown at position 0,
  blink timer pending), and snapshots to hand to a write: one for the same head
  with only restart-phase requested, one for a moved head.
\<close>

definition shown_state :: "int VirtualCursorView" where
  "shown_state = run [Flush] (construct example_host example_window)"

definition example_rect :: "int Rect" where
  "example_rect = \<lparr>top_r = 40, bottom = 58, left = 33, right = 33\<rparr>"

definition example_hostRect :: "int Rect" where
  "example_hostRect = \<lparr>top_r = 10, bottom = 410, left = 5, right = 605\<rparr>"

definition reselect_snapshot :: "int CursorMeasurement" where
  "reselect_snapshot =
     \<lparr>visible = True, rect = Some example_rect, hostRect = Some example_hostRect, head = 0,
      options = \<lparr>forcePosition = False, restartPhase = True\<rparr>\<rparr>"

definition moved_snapshot :: "int CursorMeasurement" where
  "moved_snapshot =
     \<lparr>visible = True, rect = Some example_rect, hostRect = Some example_hostRect, head = 1,
      options = \<lparr>forcePosition = False, restartPhase = False\<rparr>\<rparr>"

text \<open>The events whose handler calls \<open>scheduleMeasurement\<close>: the triggers.\<close>

fun schedules :: "'n event \<Rightarrow> bool" where
  "schedules AnimationFrame = True"
| "schedules Scroll = True"
| "schedules ResizeObserved = True"
| "schedules WindowResize = True"
| "schedules Focus = True"
| "schedules (Update u) = True"
| "schedules _ = False"

text \<open>
  More example states: the shown overlay after the host lost focus; the shown
  overlay after the host's layout stopped mapping positions and a scroll asked for
  a measurement; and the update of a typed character.
\<close>

definition blurred_state :: "int VirtualCursorView" where
  "blurred_state = run [HostFocus False] shown_state"

definition failing_coords :: "nat \<Rightarrow> int \<Rightarrow> int coords" where
  "failing_coords p side = Throws"

definition unmapped_state :: "int VirtualCursorView" where
  "unmapped_state =
     run [HostLayout failing_coords example_hostRect, Scroll] shown_state"

definition typing_update :: ViewUpdate where
  "typing_update =
     \<lparr>docChanged = True, selectionSet = True, viewportChanged = False,
      geometryChanged = False, focusChanged = False\<rparr>"

text \<open>An update descriptor with no flag set.\<close>

definition quiet_update :: ViewUpdate where
  "quiet_update =
     \<lparr>docChanged = False, selectionSet = False, viewportChanged = False,
      geometryChanged = False, focusChanged = False\<rparr>"

text \<open>Two bursts of triggers: scroll, selection change, resize; and two scrolls.\<close>

definition example_triggers :: "UpdateOptions list" where
  "example_triggers =
     [\<lparr>opt_forcePosition = Some True, opt_restartPhase = None\<rparr>,
      \<lparr>opt_forcePosition = None, opt_restartPhase = Some True\<rparr>,
      \<lparr>opt_forcePosition = Some True, opt_restartPhase = None\<rparr>]"

definition scroll_triggers :: "UpdateOptions list" where
  "scroll_triggers =
     [\<lparr>opt_forcePosition = Some True, opt_restartPhase = None\<rparr>,
      \<lparr>opt_forcePosition = Some True, opt_restartPhase = Some False\<rparr>]"

text \<open>
  Invariants of the reachable states. The window holds exactly the timeout the
  controller's handle names; a hidden overlay has no handle and is not dimmed.
\<close>

definition timer_inv :: "'n VirtualCursorView \<Rightarrow> bool" where
  "timer_inv w =
     (map fst (timeouts (window w)) = (case phaseTimer w of None \<Rightarrow> [] | Some t \<Rightarrow> [t]))"

definition hidden_inv :: "'n VirtualCursorView \<Rightarrow> bool" where
  "hidden_inv w = (overlay_hidden w \<longrightarrow> phaseTimer w = None \<and> \<not> dimmed w)"

definition controller_inv :: "'n VirtualCursorView \<Rightarrow> bool" where
  "controller_inv w = (timer_inv w \<and> hidden_inv w)"

text \<open>
  After a restart of the blink timer that is due at time \<open>T\<close>: every pending
  timeout is due at \<open>T\<close> or later, \<open>T\<close> is at most one delay ahead, and
  before \<open>T\<close> the overlay is not dimmed.
\<close>

definition blink_inv :: "nat \<Rightarrow> 'n VirtualCursorView \<Rightarrow> bool" where
  "blink_inv T w =
     ((\<forall>p \<in> set (timeouts (window w)). T \<le> snd p)
      \<and> T \<le> now (window w) + PHASE_DELAY
      \<and> (now (window w) < T \<longrightarrow> \<not> dimmed w))"

text \<open>
  The last snapshot a read produced was visible; the host's mapping of the current
  head succeeds; the pending intents include force-position.
\<close>

definition last_mapping_succeeded :: "'n VirtualCursorView \<Rightarrow> bool" where
  "last_mapping_succeeded w = (case measured (view w) of None \<Rightarrow> False | Some m \<Rightarrow> visible m)"

definition mapping_succeeds :: "'n VirtualCursorView \<Rightarrow> bool" where
  "mapping_succeeds w =
     (case coordsAtPos (view w) (main_head (view w)) (- 1) of
        Coords c \<Rightarrow> True
      | _ \<Rightarrow> False)"

definition force_pending :: "'n VirtualCursorView \<Rightarrow> bool" where
  "force_pending w = (case pendingOptions w of None \<Rightarrow> False | Some p \<Rightarrow> forcePosition p)"

text \<open>
  Further example states: the overlay after focus was lost (seen by an update)
  and regained (seen by the focus event), before the next flush; the shown
  overlay once its blink timer has fired; that state after a selection-change
  event, its animation frame and a flush; and a forced snapshot for the same head.
\<close>

definition focus_update :: ViewUpdate where
  "focus_update =
     \<lparr>docChanged = False, selectionSet = False, viewportChanged = False,
      geometryChanged = False, focusChanged = True\<rparr>"

definition refocused_state :: "int VirtualCursorView" where
  "refocused_state =
     run [Flush, HostFocus False, Update focus_update, HostFocus True, Focus]
       (construct example_host example_window)"

definition dimmed_state :: "int VirtualCursorView" where
  "dimmed_state = run [Tick 200, Timeout 1] shown_state"

definition reselected_state :: "int VirtualCursorView" where
  "reselected_state = run [SelectionChange, AnimationFrame, Flush] dimmed_state"

definition scroll_snapshot :: "int CursorMeasurement" where
  "scroll_snapshot =
     \<lparr>visible = True, rect = Some example_rect, hostRect = Some example_hostRect, head = 0,
      options = \<lparr>forcePosition = True, restartPhase = False\<rparr>\<rparr>"

subsection \<open>What each method changes\<close>

lemma hideCursor_cursor:
  "cursor (hideCursor w) =
     (cursor w)\<lparr>style_display := ''none'',
                classList := removeAll VIRTUAL_CURSOR_PHASE_CLASS (classList (cursor w))\<rparr>"
  by (simp add: hideCursor_def classList_remove_def Let_def split: option.splits)

lemma hideCursor_phaseTimer: "phaseTimer (hideCursor w) = None"
  by (simp add: hideCursor_def Let_def split: option.splits)

lemma hideCursor_window:
  "window (hideCursor w) =
     (case phaseTimer w of None \<Rightarrow> window w | Some t \<Rightarrow> clearTimeout t (window w))"
  by (simp add: hideCursor_def Let_def split: option.splits)

lemma hideCursor_frame:
  "lastHead (hideCursor w) = lastHead w"
  "view (hideCursor w) = view w"
  "scheduled (hideCursor w) = scheduled w"
  "pendingOptions (hideCursor w) = pendingOptions w"
  "resizeObserver (hideCursor w) = resizeObserver w"
  "cleanup (hideCursor w) = cleanup w"
  by (simp_all add: hideCursor_def Let_def split: option.splits)

lemmas hideCursor_simps =
  hideCursor_cursor hideCursor_phaseTimer hideCursor_window hideCursor_frame

lemma clearTimeout_simps:
  "timeouts (clearTimeout t win) = filter (\<lambda>p. fst p \<noteq> t) (timeouts win)"
  "now (clearTimeout t win) = now win"
  "nextTimer (clearTimeout t win) = nextTimer win"
  "frames (clearTimeout t win) = frames win"
  "listeners (clearTimeout t win) = listeners win"
  "resizeObserverDefined (clearTimeout t win) = resizeObserverDefined win"
  by (simp_all add: clearTimeout_def)

lemma restartPhaseTimer_cursor:
  "cursor (restartPhaseTimer w) =
     (cursor w)\<lparr>classList := removeAll VIRTUAL_CURSOR_PHASE_CLASS (classList (cursor w))\<rparr>"
  by (simp add: restartPhaseTimer_def classList_remove_def setTimeout_def Let_def
      split: option.splits)

lemma restartPhaseTimer_phaseTimer:
  "phaseTimer (restartPhaseTimer w) = Some (nextTimer (window w))"
  by (simp add: restartPhaseTimer_def setTimeout_def clearTimeout_def Let_def
      split: option.splits)

lemma restartPhaseTimer_window:
  "timeouts (window (restartPhaseTimer w)) =
     (case phaseTimer w of
        None \<Rightarrow> timeouts (window w)
      | Some t \<Rightarrow> filter (\<lambda>p. fst p \<noteq> t) (timeouts (window w)))
     @ [(nextTimer (window w), now (window w) + PHASE_DELAY)]"
  "now (window (restartPhaseTimer w)) = now (window w)"
  "nextTimer (window (restartPhaseTimer w)) = nextTimer (window w) + 1"
  "frames (window (restartPhaseTimer w)) = frames (window w)"
  "listeners (window (restartPhaseTimer w)) = listeners (window w)"
  by (simp_all add: restartPhaseTimer_def setTimeout_def clearTimeout_def Let_def
      split: option.splits)

lemma restartPhaseTimer_frame:
  "lastHead (restartPhaseTimer w) = lastHead w"
  "view (restartPhaseTimer w) = view w"
  "scheduled (restartPhaseTimer w) = scheduled w"
  "pendingOptions (restartPhaseTimer w) = pendingOptions w"
  "resizeObserver (restartPhaseTimer w) = resizeObserver w"
  "cleanup (restartPhaseTimer w) = cleanup w"
  by (simp_all add: restartPhaseTimer_def setTimeout_def Let_def split: option.splits)

lemmas restartPhaseTimer_simps =
  restartPhaseTimer_cursor restartPhaseTimer_phaseTimer restartPhaseTimer_window
  restartPhaseTimer_frame

text \<open>The two branches of \<open>scheduleMeasurement\<close>.\<close>

lemma scheduleMeasurement_hide:
  "\<not> hasFocus (view w) \<or> \<not> main_empty (view w) \<Longrightarrow>
   scheduleMeasurement opts w = (hideCursor w)\<lparr>lastHead := None\<rparr>"
  by (auto simp add: scheduleMeasurement_def isCollapsedSelection_def)

lemma scheduleMeasurement_request:
  "hasFocus (view w) \<Longrightarrow> main_empty (view w) \<Longrightarrow>
   scheduleMeasurement opts w =
     w\<lparr>pendingOptions := Some (merged opts (pendingOptions w)),
       scheduled := True,
       view := (if scheduled w then view w else requestMeasure (view w))\<rparr>"
  by (cases "pendingOptions w")
     (auto simp add: scheduleMeasurement_def isCollapsedSelection_def merged_def Let_def)

lemma readMeasurement_snd:
  "snd (readMeasurement w) = w\<lparr>pendingOptions := None, scheduled := False\<rparr>"
  by (simp add: readMeasurement_def Let_def split: coords.splits)

lemma readMeasurement_visible:
  "visible (fst (readMeasurement w)) =
     (hasFocus (view w) \<and> main_empty (view w)
      \<and> (\<exists>c. coordsAtPos (view w) (main_head (view w)) (- 1) = Coords c))"
  by (auto simp add: readMeasurement_def isCollapsedSelection_def Let_def split: coords.splits)

lemma readMeasurement_options:
  "options (fst (readMeasurement w)) =
     (case pendingOptions w of
        Some p \<Rightarrow> p
      | None \<Rightarrow> \<lparr>forcePosition = False, restartPhase = False\<rparr>)"
  by (simp add: readMeasurement_def Let_def split: coords.splits)

lemma readMeasurement_head: "head (fst (readMeasurement w)) = main_head (view w)"
  by (simp add: readMeasurement_def Let_def split: coords.splits)

lemma readMeasurement_rects:
  "visible (fst (readMeasurement w)) \<Longrightarrow>
   rect (fst (readMeasurement w)) \<noteq> None \<and> hostRect (fst (readMeasurement w)) \<noteq> None"
  by (simp add: readMeasurement_def Let_def split: coords.splits if_splits)

lemma applyMeasurement_hide:
  "\<not> visible m \<or> rect m = None \<or> hostRect m = None \<Longrightarrow>
   applyMeasurement m w = (hideCursor w)\<lparr>lastHead := None\<rparr>"
  by (auto simp add: applyMeasurement_def split: bool.splits option.splits)

lemma applyMeasurement_skip:
  "visible m \<Longrightarrow> rect m = Some r \<Longrightarrow> hostRect m = Some hr \<Longrightarrow>
   \<not> forcePosition (options m) \<Longrightarrow> lastHead w = Some (head m) \<Longrightarrow>
   applyMeasurement m w = w"
  by (simp add: applyMeasurement_def)

lemma applyMeasurement_move:
  "visible m \<Longrightarrow> rect m = Some r \<Longrightarrow> hostRect m = Some hr \<Longrightarrow>
   forcePosition (options m) \<or> lastHead w \<noteq> Some (head m) \<Longrightarrow>
   applyMeasurement m w =
     (if restartPhase (options m) \<or> lastHead w \<noteq> Some (head m)
      then restartPhaseTimer (positioned r hr (head m) w)
      else positioned r hr (head m) w)"
  by (auto simp add: applyMeasurement_def positioned_def Let_def)

subsection \<open>Evaluating the model on the examples\<close>

lemmas model_defs =
  construct_def scheduleMeasurement_def readMeasurement_def applyMeasurement_def
  hideCursor_def restartPhaseTimer_def flush_def fireTimeout_def phaseCallback_def
  update_def destroy_def onSelectionChange_def selectionFrame_def onScroll_def
  onResizeObserved_def onWindowResize_def onBlur_def onFocus_def listening_def
  classList_add_def classList_remove_def setTimeout_def clearTimeout_def
  requestAnimationFrame_def removeEventListener_def requestMeasure_def
  isCollapsedSelection_def truthy_def VIRTUAL_CURSOR_CLASS_def
  VIRTUAL_CURSOR_PHASE_CLASS_def VIRTUAL_CURSOR_ENABLED_CLASS_def PHASE_DELAY_def Let_def

lemmas example_defs =
  example_host_def example_window_def example_coords_def shown_state_def
  example_rect_def example_hostRect_def reselect_snapshot_def moved_snapshot_def
  blurred_state_def failing_coords_def unmapped_state_def typing_update_def quiet_update_def
  example_triggers_def scroll_triggers_def focus_update_def refocused_state_def
  dimmed_state_def reselected_state_def scroll_snapshot_def

subsection \<open>The write phase\<close>

text \<open>
  Claim C7. A write whose snapshot is visible (with both rectangles), whose
  force-position intent is false and whose head equals the remembered head changes
  nothing at all: the whole state after the write, the overlay's style and class
  list, the remembered head, the timer handle and the window's pending timeouts
  included, is the state before it.
\<close>

theorem skipped_write_changes_nothing:
  assumes "visible m" and "rect m = Some r" and "hostRect m = Some hr"
    and "\<not> forcePosition (options m)" and "lastHead w = Some (head m)"
  shows "applyMeasurement m w = w"
  using assms by (rule applyMeasurement_skip)

theorem skipped_write_changes_nothing_witness:
  "visible reselect_snapshot \<and> rect reselect_snapshot = Some example_rect
   \<and> hostRect reselect_snapshot = Some example_hostRect
   \<and> \<not> forcePosition (options reselect_snapshot)
   \<and> lastHead shown_state = Some (head reselect_snapshot)
   \<and> applyMeasurement reselect_snapshot shown_state = shown_state"
proof -
  have h: "visible reselect_snapshot" "rect reselect_snapshot = Some example_rect"
    "hostRect reselect_snapshot = Some example_hostRect"
    "\<not> forcePosition (options reselect_snapshot)"
    "lastHead shown_state = Some (head reselect_snapshot)"
    by (simp_all add: example_defs model_defs)
  from skipped_write_changes_nothing [OF h] h show ?thesis by simp
qed

text \<open>
  Claim C8. A write whose snapshot is visible and that is not skipped (force-position
  was consumed, or the head differs from the remembered one) remembers the
  snapshot's head, shows the overlay, and assigns as top, left and height the
  pixel values caret top minus container top, caret left minus container left,
  and caret bottom minus caret top.
\<close>

theorem mutating_write_styles:
  assumes "visible m" and "rect m = Some r" and "hostRect m = Some hr"
    and "forcePosition (options m) \<or> lastHead w \<noteq> Some (head m)"
  shows "lastHead (applyMeasurement m w) = Some (head m)
    \<and> style_top (cursor (applyMeasurement m w)) = Px (top_r r - top_r hr)
    \<and> style_left (cursor (applyMeasurement m w)) = Px (left r - left hr)
    \<and> style_height (cursor (applyMeasurement m w)) = Px (bottom r - top_r r)
    \<and> style_display (cursor (applyMeasurement m w)) = ''block''"
  by (simp add: applyMeasurement_move [OF assms] restartPhaseTimer_simps positioned_def)

theorem mutating_write_styles_witness:
  "visible moved_snapshot \<and> rect moved_snapshot = Some example_rect
   \<and> hostRect moved_snapshot = Some example_hostRect
   \<and> lastHead shown_state \<noteq> Some (head moved_snapshot)
   \<and> lastHead (applyMeasurement moved_snapshot shown_state) = Some 1
   \<and> style_top (cursor (applyMeasurement moved_snapshot shown_state)) = Px 30
   \<and> style_left (cursor (applyMeasurement moved_snapshot shown_state)) = Px 28
   \<and> style_height (cursor (applyMeasurement moved_snapshot shown_state)) = Px 18
   \<and> style_display (cursor (applyMeasurement moved_snapshot shown_state)) = ''block''"
proof -
  have h: "visible moved_snapshot" "rect moved_snapshot = Some example_rect"
    "hostRect moved_snapshot = Some example_hostRect"
    "forcePosition (options moved_snapshot) \<or> lastHead shown_state \<noteq> Some (head moved_snapshot)"
    by (simp_all add: example_defs model_defs)
  have h': "lastHead shown_state \<noteq> Some (head moved_snapshot)"
    by (simp add: example_defs model_defs)
  have e: "head moved_snapshot = 1" "top_r example_rect - top_r example_hostRect = 30"
    "left example_rect - left example_hostRect = 28"
    "bottom example_rect - top_r example_rect = 18"
    by (simp_all add: example_defs)
  from mutating_write_styles [OF h] h h' show ?thesis unfolding e by simp
qed

lemma fold_removeEventListener:
  "fold removeEventListener ls win =
     win\<lparr>listeners := filter (\<lambda>l. l \<notin> set ls) (listeners win)\<rparr>"
proof (induction ls arbitrary: win)
  case Nil
  then show ?case by simp
next
  case (Cons a ls)
  have "fold removeEventListener (a # ls) win =
          fold removeEventListener ls (removeEventListener a win)"
    by simp
  also have "\<dots> = (removeEventListener a win)
      \<lparr>listeners := filter (\<lambda>l. l \<notin> set ls) (listeners (removeEventListener a win))\<rparr>"
    by (rule Cons.IH)
  also have "\<dots> = win\<lparr>listeners := filter (\<lambda>l. l \<notin> set (a # ls)) (listeners win)\<rparr>"
    by (simp add: removeEventListener_def removeAll_filter_not_eq eq_commute [of a])
  finally show ?case .
qed

lemma destroy_cursor: "cursor (destroy w) = (cursor w)\<lparr>attached := False\<rparr>"
  by (simp add: destroy_def Let_def split: option.splits)

lemma destroy_phaseTimer: "phaseTimer (destroy w) = None"
  by (simp add: destroy_def Let_def split: option.splits)

lemma destroy_window:
  "window (destroy w) =
     (case phaseTimer w of
        None \<Rightarrow> fold removeEventListener (cleanup w) (window w)
      | Some t \<Rightarrow> clearTimeout t (fold removeEventListener (cleanup w) (window w)))"
  by (simp add: destroy_def Let_def split: option.splits)

lemma destroy_frame:
  "lastHead (destroy w) = lastHead w"
  "cleanup (destroy w) = cleanup w"
  "scheduled (destroy w) = False"
  "pendingOptions (destroy w) = None"
  "resizeObserver (destroy w) =
     (case resizeObserver w of None \<Rightarrow> None | Some x \<Rightarrow> Some Disconnected)"
  "view (destroy w) =
     (view w)\<lparr>dom_classList := removeAll VIRTUAL_CURSOR_ENABLED_CLASS (dom_classList (view w))\<rparr>"
  by (simp_all add: destroy_def Let_def classList_remove_def split: option.splits)

lemmas destroy_simps = destroy_cursor destroy_phaseTimer destroy_window destroy_frame

lemma hideCursor_idem: "hideCursor (hideCursor w) = hideCursor w"
  by (rule VirtualCursorView.equality) (simp_all add: hideCursor_simps)

lemma destroy_idem: "destroy (destroy w) = destroy w"
  by (rule VirtualCursorView.equality)
     (simp_all add: destroy_simps fold_removeEventListener clearTimeout_def
        split: option.splits)

subsection \<open>Hiding and teardown\<close>

text \<open>
  Claim C9. \<open>hideCursor\<close> and \<open>destroy\<close> are idempotent: calling either twice in a
  row leaves exactly the state that calling it once leaves. Neither has a failing
  branch, and after the first call no timer handle is left, so the second call
  cancels nothing.
\<close>

theorem hide_and_destroy_idempotent:
  "hideCursor (hideCursor w) = hideCursor w \<and> destroy (destroy w) = destroy w
   \<and> phaseTimer (hideCursor w) = None \<and> phaseTimer (destroy w) = None"
  by (simp add: hideCursor_idem destroy_idem hideCursor_phaseTimer destroy_phaseTimer)

subsection \<open>The remembered head\<close>

lemma scheduleMeasurement_lastHead:
  "lastHead (scheduleMeasurement opts w) =
     (if \<not> hasFocus (view w) \<or> \<not> main_empty (view w) then None else lastHead w)"
  by (auto simp add: scheduleMeasurement_hide scheduleMeasurement_request)

lemma applyMeasurement_lastHead:
  "lastHead (applyMeasurement m w) = None \<Longrightarrow>
   \<not> visible m \<or> rect m = None \<or> hostRect m = None \<or> lastHead w = None"
  by (cases "visible m"; cases "rect m"; cases "hostRect m")
     (auto simp add: applyMeasurement_def restartPhaseTimer_simps Let_def split: if_splits)

lemma flush_lastHead:
  "lastHead (flush w) = None \<Longrightarrow> \<not> visible (fst (readMeasurement w)) \<or> lastHead w = None"
proof (cases "measureRequests (view w) = 0")
  case True
  assume "lastHead (flush w) = None"
  with True show ?thesis by (simp add: flush_def)
next
  case False
  let ?w1 = "w\<lparr>view := (view w)\<lparr>measureRequests := measureRequests (view w) - 1\<rparr>\<rparr>"
  assume "lastHead (flush w) = None"
  with False have "lastHead (applyMeasurement (fst (readMeasurement ?w1)) (snd (readMeasurement ?w1))) = None"
    by (simp add: flush_def Let_def split_beta)
  from applyMeasurement_lastHead [OF this] readMeasurement_rects [of ?w1]
  show ?thesis by (auto simp add: readMeasurement_visible readMeasurement_snd)
qed

text \<open>
  Claim C10. \<open>hideCursor\<close> leaves the remembered head as it is, and so does the
  blur event, whose handler only calls \<open>hideCursor\<close>. Whatever happens to the
  controller, a remembered head is cleared only by a trigger that finds the focus
  missing or the selection not collapsed, or by the write of a flush whose read
  produced a snapshot that is not visible.
\<close>

theorem lastHead_cleared_only_by_trigger_or_write:
  "lastHead (hideCursor w) = lastHead w
   \<and> lastHead (step Blur w) = lastHead w
   \<and> (lastHead w = Some h \<and> lastHead (step e w) = None \<longrightarrow>
        (schedules e \<and> (\<not> hasFocus (view w) \<or> \<not> main_empty (view w)))
        \<or> (e = Flush \<and> \<not> visible (fst (readMeasurement w))))"
proof (intro conjI impI)
  show "lastHead (hideCursor w) = lastHead w" by (simp add: hideCursor_simps)
  show "lastHead (step Blur w) = lastHead w" by (simp add: onBlur_def hideCursor_simps)
  assume a: "lastHead w = Some h \<and> lastHead (step e w) = None"
  show "(schedules e \<and> (\<not> hasFocus (view w) \<or> \<not> main_empty (view w)))
        \<or> (e = Flush \<and> \<not> visible (fst (readMeasurement w)))"
  proof (cases e)
    case Flush
    with a flush_lastHead [of w] show ?thesis by auto
  next
    case (Timeout t)
    with a show ?thesis
      by (auto simp add: fireTimeout_def phaseCallback_def split: option.splits if_splits)
  qed (use a in \<open>auto simp add: onSelectionChange_def selectionFrame_def onScroll_def
        onResizeObserved_def onWindowResize_def onBlur_def onFocus_def update_def
        scheduleMeasurement_lastHead hideCursor_simps destroy_simps split: if_splits\<close>)
qed


theorem lastHead_cleared_only_by_trigger_or_write_witness:
  "lastHead blurred_state = Some 0 \<and> lastHead (step Scroll blurred_state) = None
   \<and> schedules (Scroll :: int event) \<and> \<not> hasFocus (view blurred_state)
   \<and> lastHead (step Blur blurred_state) = Some 0"
proof -
  have h: "lastHead blurred_state = Some 0 \<and> lastHead (step Scroll blurred_state) = None"
    by (simp add: blurred_state_def example_defs model_defs)
  have f: "\<not> hasFocus (view blurred_state)"
    by (simp add: blurred_state_def example_defs model_defs)
  from lastHead_cleared_only_by_trigger_or_write [of blurred_state 0 Scroll] h f
  show ?thesis by simp
qed

subsection \<open>Triggers, failed mappings and the update handler\<close>

lemma applyMeasurement_frame:
  "view (applyMeasurement m w) = view w"
  "scheduled (applyMeasurement m w) = scheduled w"
  "pendingOptions (applyMeasurement m w) = pendingOptions w"
  "resizeObserver (applyMeasurement m w) = resizeObserver w"
  "cleanup (applyMeasurement m w) = cleanup w"
  by (cases "visible m"; cases "rect m"; cases "hostRect m";
      simp add: applyMeasurement_def restartPhaseTimer_simps hideCursor_simps Let_def)+

text \<open>
  Claim C3. A trigger (a call of \<open>scheduleMeasurement\<close>, with any intents) that
  finds the surface without focus or the selection not collapsed hides the overlay
  in that call: the display is \<open>none\<close>, the dimmed class is gone, the timer
  handle is cleared and the timer it named is no longer pending; the remembered
  head is cleared; and no read is scheduled: the host's count of submitted
  requests, the scheduled flag and the pending intents are as before.
\<close>

theorem trigger_without_focus_hides:
  assumes "\<not> hasFocus (view w) \<or> \<not> main_empty (view w)"
  shows "let w' = scheduleMeasurement opts w in
           style_display (cursor w') = ''none''
         \<and> VIRTUAL_CURSOR_PHASE_CLASS \<notin> set (classList (cursor w'))
         \<and> phaseTimer w' = None
         \<and> (\<forall>t. phaseTimer w = Some t \<longrightarrow> t \<notin> fst ` set (timeouts (window w')))
         \<and> lastHead w' = None
         \<and> measureRequests (view w') = measureRequests (view w)
         \<and> scheduled w' = scheduled w
         \<and> pendingOptions w' = pendingOptions w"
  by (auto simp add: scheduleMeasurement_hide [OF assms] hideCursor_simps clearTimeout_simps Let_def)

theorem trigger_without_focus_hides_witness:
  "\<not> hasFocus (view blurred_state)
   \<and> style_display (cursor blurred_state) = ''block''
   \<and> phaseTimer blurred_state = Some 1
   \<and> style_display (cursor (scheduleMeasurement \<lparr>opt_forcePosition = Some True, opt_restartPhase = None\<rparr> blurred_state)) = ''none''
   \<and> phaseTimer (scheduleMeasurement \<lparr>opt_forcePosition = Some True, opt_restartPhase = None\<rparr> blurred_state) = None
   \<and> 1 \<notin> fst ` set (timeouts (window (scheduleMeasurement \<lparr>opt_forcePosition = Some True, opt_restartPhase = None\<rparr> blurred_state)))
   \<and> lastHead (scheduleMeasurement \<lparr>opt_forcePosition = Some True, opt_restartPhase = None\<rparr> blurred_state) = None
   \<and> measureRequests (view (scheduleMeasurement \<lparr>opt_forcePosition = Some True, opt_restartPhase = None\<rparr> blurred_state)) = 0"
proof -
  have h: "\<not> hasFocus (view blurred_state)"
    "style_display (cursor blurred_state) = ''block''"
    "phaseTimer blurred_state = Some 1"
    "measureRequests (view blurred_state) = 0"
    by (simp_all add: example_defs model_defs)
  from h(1) have h': "\<not> hasFocus (view blurred_state) \<or> \<not> main_empty (view blurred_state)" by simp
  from trigger_without_focus_hides [OF h', of "\<lparr>opt_forcePosition = Some True, opt_restartPhase = None\<rparr>"] h
  show ?thesis by (simp add: Let_def)
qed

text \<open>
  Claim C4. When the host's mapping of the head to a rectangle throws or returns
  nothing, the read returns a snapshot that is not visible (it returns; the
  failure goes no further), and the write that receives this snapshot hides the
  overlay, cancels the timer and clears the remembered head, whatever the state
  was before.
\<close>

theorem failed_mapping_hides:
  assumes "coordsAtPos (view w) (main_head (view w)) (- 1) = Throws
         \<or> coordsAtPos (view w) (main_head (view w)) (- 1) = Null"
  shows "let m = fst (readMeasurement w); w' = applyMeasurement m (snd (readMeasurement w)) in
           \<not> visible m \<and> rect m = None \<and> head m = main_head (view w)
         \<and> style_display (cursor w') = ''none''
         \<and> VIRTUAL_CURSOR_PHASE_CLASS \<notin> set (classList (cursor w'))
         \<and> phaseTimer w' = None
         \<and> lastHead w' = None"
proof -
  have v: "\<not> visible (fst (readMeasurement w))"
    using assms by (auto simp add: readMeasurement_visible)
  have r: "rect (fst (readMeasurement w)) = None"
    using assms by (auto simp add: readMeasurement_def Let_def)
  show ?thesis
    using v r by (simp add: Let_def applyMeasurement_hide hideCursor_simps readMeasurement_head)
qed

theorem failed_mapping_hides_witness:
  "coordsAtPos (view unmapped_state) (main_head (view unmapped_state)) (- 1) = Throws
   \<and> style_display (cursor unmapped_state) = ''block''
   \<and> lastHead unmapped_state = Some 0
   \<and> \<not> visible (fst (readMeasurement unmapped_state))
   \<and> style_display (cursor (applyMeasurement (fst (readMeasurement unmapped_state))
         (snd (readMeasurement unmapped_state)))) = ''none''
   \<and> lastHead (applyMeasurement (fst (readMeasurement unmapped_state))
         (snd (readMeasurement unmapped_state))) = None"
proof -
  have h: "coordsAtPos (view unmapped_state) (main_head (view unmapped_state)) (- 1) = Throws"
    "style_display (cursor unmapped_state) = ''block''"
    "lastHead unmapped_state = Some 0"
    by (simp_all add: example_defs model_defs)
  from h(1) have h': "coordsAtPos (view unmapped_state) (main_head (view unmapped_state)) (- 1) = Throws
         \<or> coordsAtPos (view unmapped_state) (main_head (view unmapped_state)) (- 1) = Null" by simp
  from failed_mapping_hides [OF h'] h show ?thesis by (simp add: Let_def)
qed

text \<open>
  Claim C6. For an update descriptor with at least one of its five flags set, the
  update handler is a trigger whose force-position intent is the disjunction of
  all five flags and whose restart-phase intent is document changed or selection
  set; on a focused surface with a collapsed selection and nothing pending, that
  is one submitted request and these are the intents the read consumes. For a
  descriptor with no flag set the handler does nothing.
\<close>

theorem update_requests_measurement:
  "(docChanged u \<or> selectionSet u \<or> viewportChanged u \<or> geometryChanged u \<or> focusChanged u
      \<longrightarrow> update u w =
           scheduleMeasurement
             \<lparr>opt_forcePosition =
                Some (viewportChanged u \<or> geometryChanged u \<or> focusChanged u
                      \<or> docChanged u \<or> selectionSet u),
              opt_restartPhase = Some (docChanged u \<or> selectionSet u)\<rparr> w)
   \<and> (docChanged u \<or> selectionSet u \<or> viewportChanged u \<or> geometryChanged u \<or> focusChanged u
      \<longrightarrow> hasFocus (view w) \<and> main_empty (view w) \<and> \<not> scheduled w \<and> pendingOptions w = None
      \<longrightarrow> measureRequests (view (update u w)) = measureRequests (view w) + 1
          \<and> options (fst (readMeasurement (update u w))) =
              \<lparr>forcePosition = (viewportChanged u \<or> geometryChanged u \<or> focusChanged u
                                 \<or> docChanged u \<or> selectionSet u),
               restartPhase = (docChanged u \<or> selectionSet u)\<rparr>)
   \<and> (\<not> (docChanged u \<or> selectionSet u \<or> viewportChanged u \<or> geometryChanged u
          \<or> focusChanged u)
      \<longrightarrow> update u w = w)"
  by (auto simp add: update_def scheduleMeasurement_request readMeasurement_options
        requestMeasure_def merged_def truthy_def)

theorem update_requests_measurement_witness:
  "docChanged typing_update \<and> hasFocus (view shown_state) \<and> main_empty (view shown_state)
   \<and> \<not> scheduled shown_state \<and> pendingOptions shown_state = None
   \<and> measureRequests (view (update typing_update shown_state)) = 1
   \<and> options (fst (readMeasurement (update typing_update shown_state))) =
        \<lparr>forcePosition = True, restartPhase = True\<rparr>
   \<and> \<not> docChanged quiet_update \<and> \<not> selectionSet quiet_update \<and> \<not> viewportChanged quiet_update
   \<and> \<not> geometryChanged quiet_update \<and> \<not> focusChanged quiet_update
   \<and> update quiet_update shown_state = shown_state"
proof -
  have h: "docChanged typing_update" "selectionSet typing_update"
    "\<not> viewportChanged typing_update" "\<not> geometryChanged typing_update"
    "\<not> focusChanged typing_update"
    "hasFocus (view shown_state)" "main_empty (view shown_state)"
    "\<not> scheduled shown_state" "pendingOptions shown_state = None"
    "measureRequests (view shown_state) = 0"
    by (simp_all add: example_defs model_defs)
  have q: "\<not> docChanged quiet_update" "\<not> selectionSet quiet_update"
    "\<not> viewportChanged quiet_update" "\<not> geometryChanged quiet_update"
    "\<not> focusChanged quiet_update"
    by (simp_all add: quiet_update_def)
  have a: "measureRequests (view (update typing_update shown_state)) =
             measureRequests (view shown_state) + 1
           \<and> options (fst (readMeasurement (update typing_update shown_state))) =
               \<lparr>forcePosition = (viewportChanged typing_update \<or> geometryChanged typing_update
                                  \<or> focusChanged typing_update \<or> docChanged typing_update
                                  \<or> selectionSet typing_update),
                restartPhase = (docChanged typing_update \<or> selectionSet typing_update)\<rparr>"
    using update_requests_measurement [of typing_update shown_state] h by blast
  have b: "update quiet_update shown_state = shown_state"
    using update_requests_measurement [of quiet_update shown_state] q by blast
  from a b h q show ?thesis by simp
qed

subsection \<open>Coalescing of triggers\<close>

lemma flush_idle: "measureRequests (view w) = 0 \<Longrightarrow> flush w = w"
  by (simp add: flush_def)

lemma flush_run:
  "0 < measureRequests (view w) \<Longrightarrow>
   flush w =
     (let w1 = w\<lparr>view := (view w)\<lparr>measureRequests := measureRequests (view w) - 1\<rparr>\<rparr>;
          m = fst (readMeasurement w1);
          w3 = applyMeasurement m (snd (readMeasurement w1))
      in w3\<lparr>view := (view w3)\<lparr>measured := Some m\<rparr>\<rparr>)"
  by (simp add: flush_def Let_def split_beta)

lemma flush_control:
  assumes "0 < measureRequests (view w)"
  shows "scheduled (flush w) = False" and "pendingOptions (flush w) = None"
    and "hasFocus (view (flush w)) = hasFocus (view w)"
    and "main_empty (view (flush w)) = main_empty (view w)"
    and "measureRequests (view (flush w)) = measureRequests (view w) - 1"
    and "map_option options (measured (view (flush w))) =
           Some (case pendingOptions w of
                   Some p \<Rightarrow> p
                 | None \<Rightarrow> \<lparr>forcePosition = False, restartPhase = False\<rparr>)"
  by (simp_all add: flush_run [OF assms] Let_def applyMeasurement_frame readMeasurement_snd
        readMeasurement_options)

lemma fold_scheduleMeasurement:
  "hasFocus (view w) \<Longrightarrow> main_empty (view w) \<Longrightarrow> os \<noteq> [] \<Longrightarrow>
   fold scheduleMeasurement os w =
     w\<lparr>pendingOptions :=
         Some \<lparr>forcePosition =
                 ((case pendingOptions w of None \<Rightarrow> False | Some q \<Rightarrow> forcePosition q)
                  \<or> list_ex (\<lambda>opts. truthy (opt_forcePosition opts)) os),
               restartPhase =
                 ((case pendingOptions w of None \<Rightarrow> False | Some q \<Rightarrow> restartPhase q)
                  \<or> list_ex (\<lambda>opts. truthy (opt_restartPhase opts)) os)\<rparr>,
       scheduled := True,
       view := (if scheduled w then view w else requestMeasure (view w))\<rparr>"
proof (induction os arbitrary: w)
  case Nil
  then show ?case by simp
next
  case (Cons a os)
  let ?w1 = "scheduleMeasurement a w"
  have w1: "?w1 = w\<lparr>pendingOptions := Some (merged a (pendingOptions w)),
       scheduled := True,
       view := (if scheduled w then view w else requestMeasure (view w))\<rparr>"
    using Cons.prems by (simp add: scheduleMeasurement_request)
  show ?case
  proof (cases "os = []")
    case True
    then show ?thesis by (simp add: w1 merged_def)
  next
    case False
    have f: "hasFocus (view ?w1)" "main_empty (view ?w1)"
      using Cons.prems by (simp_all add: w1 requestMeasure_def)
    have "fold scheduleMeasurement (a # os) w = fold scheduleMeasurement os ?w1" by simp
    also note Cons.IH [OF f False]
    finally show ?thesis by (simp add: w1 merged_def disj_assoc)
  qed
qed

text \<open>
  Claim C1. Take any state with focus and a collapsed selection in which a cycle is
  submitted, let the host run it (the previous cycle), and then let any non-empty
  sequence of triggers call \<open>scheduleMeasurement\<close>. Then exactly one new cycle is
  submitted to the host, whatever the number of triggers; the intents the next
  read consumes, and that the next flush hands to its write, are the
  component-wise disjunction of the triggers' intents; and that flush leaves
  nothing scheduled or pending.
\<close>

theorem coalesced_triggers_one_cycle:
  assumes "hasFocus (view w0)" and "main_empty (view w0)"
    and "0 < measureRequests (view w0)" and "os \<noteq> []"
  shows "let w1 = flush w0; w2 = fold scheduleMeasurement os w1; w3 = flush w2 in
           measureRequests (view w2) = measureRequests (view w1) + 1
         \<and> scheduled w2
         \<and> options (fst (readMeasurement w2)) = intents_or os
         \<and> map_option options (measured (view w3)) = Some (intents_or os)
         \<and> measureRequests (view w3) = measureRequests (view w1)
         \<and> \<not> scheduled w3 \<and> pendingOptions w3 = None"
proof -
  let ?w1 = "flush w0"
  let ?w2 = "fold scheduleMeasurement os ?w1"
  note c1 = flush_control [OF assms(3)]
  have f1: "hasFocus (view ?w1)" "main_empty (view ?w1)"
    using assms(1,2) by (simp_all add: c1)
  have w2: "?w2 = ?w1\<lparr>pendingOptions := Some (intents_or os), scheduled := True,
                       view := requestMeasure (view ?w1)\<rparr>"
    by (simp add: fold_scheduleMeasurement [OF f1 assms(4)] c1 intents_or_def)
  have r2: "0 < measureRequests (view ?w2)"
    by (simp add: w2 requestMeasure_def)
  note c2 = flush_control [OF r2]
  have a: "measureRequests (view ?w2) = measureRequests (view ?w1) + 1" "scheduled ?w2"
    "options (fst (readMeasurement ?w2)) = intents_or os"
    "pendingOptions ?w2 = Some (intents_or os)"
    by (simp_all add: w2 requestMeasure_def readMeasurement_options)
  show ?thesis
    unfolding Let_def using a by (simp add: c2)
qed

theorem coalesced_triggers_one_cycle_witness:
  "hasFocus (view (construct example_host example_window))
   \<and> main_empty (view (construct example_host example_window))
   \<and> 0 < measureRequests (view (construct example_host example_window))
   \<and> example_triggers \<noteq> []
   \<and> measureRequests (view (fold scheduleMeasurement example_triggers
         (flush (construct example_host example_window)))) = 1
   \<and> options (fst (readMeasurement (fold scheduleMeasurement example_triggers
         (flush (construct example_host example_window))))) =
       \<lparr>forcePosition = True, restartPhase = True\<rparr>
   \<and> options (fst (readMeasurement (fold scheduleMeasurement scroll_triggers
         (flush (construct example_host example_window))))) =
       \<lparr>forcePosition = True, restartPhase = False\<rparr>"
proof -
  have h: "hasFocus (view (construct example_host example_window))"
    "main_empty (view (construct example_host example_window))"
    "0 < measureRequests (view (construct example_host example_window))"
    "example_triggers \<noteq> []" "scroll_triggers \<noteq> []"
    by (simp_all add: example_defs model_defs example_triggers_def scroll_triggers_def)
  have r: "measureRequests (view (flush (construct example_host example_window))) = 0"
    by (simp add: example_defs model_defs)
  have i: "intents_or example_triggers = \<lparr>forcePosition = True, restartPhase = True\<rparr>"
    "intents_or scroll_triggers = \<lparr>forcePosition = True, restartPhase = False\<rparr>"
    by (simp_all add: intents_or_def example_triggers_def scroll_triggers_def truthy_def)
  from coalesced_triggers_one_cycle [OF h(1,2,3,4)] coalesced_triggers_one_cycle [OF h(1,2,3,5)]
    h r i
  show ?thesis by (simp add: Let_def)
qed

subsection \<open>Invariants of the reachable states\<close>

lemma single_timeout_filter:
  "map fst xs = [t] \<Longrightarrow> filter (\<lambda>p. fst p \<noteq> t) xs = []"
  by (cases xs) auto

lemma timer_inv_cleared:
  "timer_inv w \<Longrightarrow>
   timeouts (case phaseTimer w of None \<Rightarrow> window w | Some t \<Rightarrow> clearTimeout t (window w)) = []"
  by (cases "phaseTimer w") (simp_all add: timer_inv_def clearTimeout_simps single_timeout_filter)

lemma hideCursor_inv: "timer_inv w \<Longrightarrow> controller_inv (hideCursor w)"
  using timer_inv_cleared [of w]
  by (simp add: controller_inv_def timer_inv_def hidden_inv_def dimmed_def overlay_hidden_def
      hideCursor_simps)

lemma hideCursor_lastHead_inv:
  "timer_inv w \<Longrightarrow> controller_inv ((hideCursor w)\<lparr>lastHead := None\<rparr>)"
  using hideCursor_inv [of w]
  by (simp add: controller_inv_def timer_inv_def hidden_inv_def dimmed_def overlay_hidden_def)

lemma restartPhaseTimer_inv:
  assumes "timer_inv w" and "\<not> overlay_hidden w"
  shows "controller_inv (restartPhaseTimer w)"
proof -
  have "(case phaseTimer w of
           None \<Rightarrow> timeouts (window w)
         | Some t \<Rightarrow> filter (\<lambda>p. fst p \<noteq> t) (timeouts (window w))) = []"
    using assms(1)
    by (cases "phaseTimer w") (simp_all add: timer_inv_def single_timeout_filter)
  then show ?thesis
    using assms(2)
    by (simp add: controller_inv_def timer_inv_def hidden_inv_def overlay_hidden_def
        restartPhaseTimer_simps)
qed

lemma scheduleMeasurement_inv:
  "controller_inv w \<Longrightarrow> controller_inv (scheduleMeasurement opts w)"
proof (cases "hasFocus (view w) \<and> main_empty (view w)")
  case True
  assume "controller_inv w"
  with True show ?thesis
    by (simp add: scheduleMeasurement_request controller_inv_def timer_inv_def hidden_inv_def
        dimmed_def overlay_hidden_def)
next
  case False
  assume "controller_inv w"
  then have "timer_inv w" by (simp add: controller_inv_def)
  with False show ?thesis
    by (simp add: scheduleMeasurement_hide hideCursor_lastHead_inv)
qed

lemma readMeasurement_inv:
  "controller_inv w \<Longrightarrow> controller_inv (snd (readMeasurement w))"
  by (simp add: readMeasurement_snd controller_inv_def timer_inv_def hidden_inv_def
      dimmed_def overlay_hidden_def)

lemma positioned_inv:
  "timer_inv w \<Longrightarrow> timer_inv (positioned r hr h w) \<and> \<not> overlay_hidden (positioned r hr h w)"
  by (simp add: positioned_def timer_inv_def overlay_hidden_def)

lemma applyMeasurement_inv:
  assumes "controller_inv w"
  shows "controller_inv (applyMeasurement m w)"
proof -
  have t: "timer_inv w" using assms by (simp add: controller_inv_def)
  consider (hide) "\<not> visible m \<or> rect m = None \<or> hostRect m = None"
    | (skip) r hr where "visible m" "rect m = Some r" "hostRect m = Some hr"
        "\<not> forcePosition (options m)" "lastHead w = Some (head m)"
    | (move) r hr where "visible m" "rect m = Some r" "hostRect m = Some hr"
        "forcePosition (options m) \<or> lastHead w \<noteq> Some (head m)"
    by (cases "rect m"; cases "hostRect m") auto
  then show ?thesis
  proof cases
    case hide
    then show ?thesis by (simp add: applyMeasurement_hide hideCursor_lastHead_inv t)
  next
    case skip
    then show ?thesis by (simp add: applyMeasurement_skip assms)
  next
    case move
    note p = positioned_inv [OF t, of r hr "head m"]
    from p have "controller_inv (positioned r hr (head m) w)"
      by (simp add: controller_inv_def hidden_inv_def)
    moreover from p have "controller_inv (restartPhaseTimer (positioned r hr (head m) w))"
      by (simp add: restartPhaseTimer_inv)
    ultimately show ?thesis
      by (simp add: applyMeasurement_move [OF move])
  qed
qed

lemma view_update_inv:
  "controller_inv (w\<lparr>view := v\<rparr>) = controller_inv w"
  by (simp add: controller_inv_def timer_inv_def hidden_inv_def dimmed_def overlay_hidden_def)

lemma flush_inv: "controller_inv w \<Longrightarrow> controller_inv (flush w)"
  by (cases "measureRequests (view w) = 0")
     (simp_all add: flush_idle flush_run Let_def view_update_inv applyMeasurement_inv
        readMeasurement_inv)

lemma find_single:
  "map fst xs = [t'] \<Longrightarrow> find (\<lambda>p. fst p = t) xs = Some p \<Longrightarrow> t = t'"
  by (cases xs) (auto split: if_splits)

lemma fireTimeout_inv:
  assumes "controller_inv w"
  shows "controller_inv (fireTimeout t w)"
proof (cases "find (\<lambda>p. fst p = t) (timeouts (window w))")
  case None
  then show ?thesis using assms by (simp add: fireTimeout_def)
next
  case (Some p)
  then have ne: "timeouts (window w) \<noteq> []" by auto
  with assms obtain t' where t': "phaseTimer w = Some t'" "map fst (timeouts (window w)) = [t']"
    by (cases "phaseTimer w") (auto simp add: controller_inv_def timer_inv_def)
  from find_single [OF t'(2) Some] have "t = t'" .
  with t' assms have "\<not> overlay_hidden w" "filter (\<lambda>p. fst p \<noteq> t) (timeouts (window w)) = []"
    by (auto simp add: controller_inv_def hidden_inv_def single_timeout_filter)
  then have "controller_inv (phaseCallback (w\<lparr>window := clearTimeout t (window w)\<rparr>))"
    by (simp add: phaseCallback_def controller_inv_def timer_inv_def
        hidden_inv_def overlay_hidden_def clearTimeout_simps)
  then show ?thesis
    using Some assms by (simp add: fireTimeout_def)
qed

lemma fold_removeEventListener_timeouts:
  "timeouts (fold removeEventListener ls win) = timeouts win"
  by (simp add: fold_removeEventListener)

lemma destroy_inv:
  assumes "controller_inv w"
  shows "controller_inv (destroy w)"
proof -
  have "timeouts (window (destroy w)) = []"
    using assms
    by (cases "phaseTimer w")
       (simp_all add: destroy_simps controller_inv_def timer_inv_def clearTimeout_simps
          fold_removeEventListener_timeouts single_timeout_filter)
  then show ?thesis
    using assms
    by (simp add: controller_inv_def timer_inv_def hidden_inv_def dimmed_def overlay_hidden_def
        destroy_cursor destroy_phaseTimer)
qed

lemma window_update_inv:
  "timeouts win = timeouts (window w) \<Longrightarrow> controller_inv (w\<lparr>window := win\<rparr>) = controller_inv w"
  by (simp add: controller_inv_def timer_inv_def hidden_inv_def dimmed_def overlay_hidden_def)

lemma step_inv: "controller_inv w \<Longrightarrow> controller_inv (step e w)"
proof (cases e)
  case AnimationFrame
  assume "controller_inv w"
  then show ?thesis
    by (simp add: AnimationFrame selectionFrame_def scheduleMeasurement_inv window_update_inv)
next
  case SelectionChange
  assume "controller_inv w"
  then show ?thesis
    by (simp add: SelectionChange onSelectionChange_def requestAnimationFrame_def
        window_update_inv)
next
  case Blur
  assume "controller_inv w"
  then show ?thesis
    using hideCursor_inv [of w] by (simp add: Blur onBlur_def controller_inv_def)
next
  case (Tick d)
  assume "controller_inv w"
  then show ?thesis by (simp add: Tick window_update_inv)
qed (simp_all add: onScroll_def onResizeObserved_def onWindowResize_def onFocus_def update_def
      scheduleMeasurement_inv destroy_inv flush_inv fireTimeout_inv view_update_inv)

lemma run_inv: "controller_inv w \<Longrightarrow> controller_inv (run es w)"
  by (induction es arbitrary: w) (simp_all add: step_inv)

lemma construct_inv: "timeouts win = [] \<Longrightarrow> controller_inv (construct v win)"
  unfolding construct_def Let_def
  by (rule scheduleMeasurement_inv)
     (simp add: controller_inv_def timer_inv_def hidden_inv_def dimmed_def overlay_hidden_def
        VIRTUAL_CURSOR_CLASS_def VIRTUAL_CURSOR_PHASE_CLASS_def)

lemma reachable_inv: "timeouts win = [] \<Longrightarrow> controller_inv (run es (construct v win))"
  by (simp add: run_inv construct_inv)

subsection \<open>When the overlay is visible\<close>

text \<open>
  Claim C2 says that in every reachable state the overlay is visible if and only
  if the surface has focus, the selection is collapsed and the last mapping
  succeeded. The measurement is batched, so this fails between a trigger and its
  flush: after focus was lost and regained, the surface has focus, the selection
  is collapsed, the last mapping made succeeded (and the mapping of the current
  head succeeds), and the overlay is hidden until the host runs the flush.
\<close>

theorem overlay_iff_counterexample:
  "hasFocus (view refocused_state) \<and> main_empty (view refocused_state)
   \<and> last_mapping_succeeded refocused_state \<and> mapping_succeeds refocused_state
   \<and> \<not> overlay_visible refocused_state \<and> overlay_hidden refocused_state"
  by (simp add: last_mapping_succeeded_def mapping_succeeds_def overlay_visible_def
      overlay_hidden_def example_defs model_defs)

lemma mapping_succeeds_iff:
  "mapping_succeeds w = (\<exists>c. coordsAtPos (view w) (main_head (view w)) (- 1) = Coords c)"
  by (simp add: mapping_succeeds_def split: coords.splits)

lemma flush_hidden:
  assumes "0 < measureRequests (view w)"
    and "\<not> (hasFocus (view w) \<and> main_empty (view w) \<and> mapping_succeeds w)"
  shows "overlay_hidden (flush w) \<and> phaseTimer (flush w) = None \<and> \<not> dimmed (flush w)"
proof -
  let ?w1 = "w\<lparr>view := (view w)\<lparr>measureRequests := measureRequests (view w) - 1\<rparr>\<rparr>"
  have "\<not> visible (fst (readMeasurement ?w1))"
    using assms(2) by (simp add: readMeasurement_visible mapping_succeeds_iff)
  then show ?thesis
    by (simp add: flush_run [OF assms(1)] Let_def applyMeasurement_hide hideCursor_simps
        overlay_hidden_def dimmed_def)
qed

lemma flush_shown:
  assumes "0 < measureRequests (view w)"
    and "hasFocus (view w)" and "main_empty (view w)" and "mapping_succeeds w"
    and "force_pending w \<or> lastHead w \<noteq> Some (main_head (view w))"
  shows "overlay_visible (flush w)"
proof -
  let ?w1 = "w\<lparr>view := (view w)\<lparr>measureRequests := measureRequests (view w) - 1\<rparr>\<rparr>"
  let ?m = "fst (readMeasurement ?w1)"
  have v: "visible ?m"
    using assms(2,3,4) by (simp add: readMeasurement_visible mapping_succeeds_iff)
  with readMeasurement_rects [of ?w1] obtain r hr
    where r: "rect ?m = Some r" "hostRect ?m = Some hr" by auto
  have f: "forcePosition (options ?m) \<or> lastHead (snd (readMeasurement ?w1)) \<noteq> Some (head ?m)"
    using assms(5)
    by (auto simp add: readMeasurement_options readMeasurement_head readMeasurement_snd
        force_pending_def split: option.splits)
  have "overlay_visible (applyMeasurement ?m (snd (readMeasurement ?w1)))"
    unfolding applyMeasurement_move [OF v r f]
    by (simp add: overlay_visible_def restartPhaseTimer_simps positioned_def)
  moreover have "overlay_visible (flush w) =
      overlay_visible (applyMeasurement ?m (snd (readMeasurement ?w1)))"
    unfolding flush_run [OF assms(1)] Let_def by (simp add: overlay_visible_def)
  ultimately show ?thesis by simp
qed

text \<open>
  Claim C2, amended. In every reachable state a hidden overlay is not dimmed and
  has no blink timer, neither a handle nor a pending timeout. A flush that runs a
  cycle leaves the overlay hidden, not dimmed and without timer when at the read
  the focus was missing, the selection was not collapsed or the mapping failed;
  so it leaves the overlay visible only if all three held; and it leaves it
  visible when all three held and force-position was pending or the head differs
  from the remembered one. A trigger that finds the focus missing or the selection
  not collapsed hides the overlay and cancels the timer in that call; any other
  trigger leaves the overlay element as it is, until the flush.
\<close>

theorem overlay_visibility:
  "(timeouts win = [] \<longrightarrow>
      (let s = run es (construct v win) in
         overlay_hidden s \<longrightarrow> phaseTimer s = None \<and> timeouts (window s) = [] \<and> \<not> dimmed s))
   \<and> (0 < measureRequests (view w) \<longrightarrow>
      (let ok = (hasFocus (view w) \<and> main_empty (view w) \<and> mapping_succeeds w) in
         (\<not> ok \<longrightarrow> overlay_hidden (flush w) \<and> phaseTimer (flush w) = None
                   \<and> \<not> dimmed (flush w))
       \<and> (overlay_visible (flush w) \<longrightarrow> ok)
       \<and> (ok \<and> (force_pending w \<or> lastHead w \<noteq> Some (main_head (view w)))
            \<longrightarrow> overlay_visible (flush w))))
   \<and> (\<not> hasFocus (view w) \<or> \<not> main_empty (view w) \<longrightarrow>
        overlay_hidden (scheduleMeasurement opts w)
      \<and> phaseTimer (scheduleMeasurement opts w) = None
      \<and> \<not> dimmed (scheduleMeasurement opts w))
   \<and> (hasFocus (view w) \<and> main_empty (view w) \<longrightarrow>
        cursor (scheduleMeasurement opts w) = cursor w)"
proof (intro conjI impI)
  assume "timeouts win = []"
  then have "controller_inv (run es (construct v win))" by (rule reachable_inv)
  then show "let s = run es (construct v win) in
         overlay_hidden s \<longrightarrow> phaseTimer s = None \<and> timeouts (window s) = [] \<and> \<not> dimmed s"
    by (auto simp add: Let_def controller_inv_def timer_inv_def hidden_inv_def)
next
  assume r: "0 < measureRequests (view w)"
  have "overlay_visible (flush w) \<Longrightarrow> \<not> overlay_hidden (flush w)"
    by (simp add: overlay_visible_def overlay_hidden_def)
  with flush_hidden [OF r] flush_shown [OF r]
  show "let ok = (hasFocus (view w) \<and> main_empty (view w) \<and> mapping_succeeds w) in
         (\<not> ok \<longrightarrow> overlay_hidden (flush w) \<and> phaseTimer (flush w) = None
                   \<and> \<not> dimmed (flush w))
       \<and> (overlay_visible (flush w) \<longrightarrow> ok)
       \<and> (ok \<and> (force_pending w \<or> lastHead w \<noteq> Some (main_head (view w)))
            \<longrightarrow> overlay_visible (flush w))"
    unfolding Let_def by blast
next
  assume a: "\<not> hasFocus (view w) \<or> \<not> main_empty (view w)"
  show "overlay_hidden (scheduleMeasurement opts w)"
    "phaseTimer (scheduleMeasurement opts w) = None"
    "\<not> dimmed (scheduleMeasurement opts w)"
    by (simp_all add: scheduleMeasurement_hide [OF a] hideCursor_simps overlay_hidden_def
        dimmed_def)
next
  assume "hasFocus (view w) \<and> main_empty (view w)"
  then show "cursor (scheduleMeasurement opts w) = cursor w"
    by (simp add: scheduleMeasurement_request)
qed

theorem overlay_visibility_witness:
  "timeouts example_window = []
   \<and> overlay_hidden (run [Flush, Blur] (construct example_host example_window))
   \<and> phaseTimer (run [Flush, Blur] (construct example_host example_window)) = None
   \<and> timeouts (window (run [Flush, Blur] (construct example_host example_window))) = []
   \<and> 0 < measureRequests (view (construct example_host example_window))
   \<and> hasFocus (view (construct example_host example_window))
   \<and> main_empty (view (construct example_host example_window))
   \<and> mapping_succeeds (construct example_host example_window)
   \<and> force_pending (construct example_host example_window)
   \<and> overlay_visible (flush (construct example_host example_window))
   \<and> 0 < measureRequests (view unmapped_state)
   \<and> \<not> mapping_succeeds unmapped_state
   \<and> overlay_visible unmapped_state
   \<and> overlay_hidden (flush unmapped_state)
   \<and> phaseTimer (flush unmapped_state) = None
   \<and> \<not> hasFocus (view blurred_state)
   \<and> overlay_visible blurred_state
   \<and> overlay_hidden (scheduleMeasurement
        \<lparr>opt_forcePosition = Some True, opt_restartPhase = None\<rparr> blurred_state)
   \<and> cursor (scheduleMeasurement \<lparr>opt_forcePosition = Some True, opt_restartPhase = None\<rparr>
        (construct example_host example_window)) =
       cursor (construct example_host example_window)"
proof -
  let ?c = "construct example_host example_window"
  let ?o = "\<lparr>opt_forcePosition = Some True, opt_restartPhase = None\<rparr>"
  have h1: "timeouts example_window = []"
    "overlay_hidden (run [Flush, Blur] ?c)"
    by (simp_all add: overlay_hidden_def example_defs model_defs)
  have h2: "0 < measureRequests (view ?c)" "hasFocus (view ?c)" "main_empty (view ?c)"
    "mapping_succeeds ?c" "force_pending ?c"
    by (simp_all add: mapping_succeeds_def force_pending_def example_defs model_defs)
  have h3: "0 < measureRequests (view unmapped_state)" "\<not> mapping_succeeds unmapped_state"
    "overlay_visible unmapped_state"
    by (simp_all add: mapping_succeeds_def overlay_visible_def example_defs model_defs)
  have h4: "\<not> hasFocus (view blurred_state)" "overlay_visible blurred_state"
    by (simp_all add: overlay_visible_def example_defs model_defs)
  note t1 = overlay_visibility [where win = example_window and es = "[Flush, Blur]"
      and v = example_host and w = ?c and opts = ?o]
  note t2 = overlay_visibility [where win = example_window and es = "[Flush, Blur]"
      and v = example_host and w = unmapped_state and opts = ?o]
  note t3 = overlay_visibility [where win = example_window and es = "[Flush, Blur]"
      and v = example_host and w = blurred_state and opts = ?o]
  have a: "phaseTimer (run [Flush, Blur] ?c) = None \<and> timeouts (window (run [Flush, Blur] ?c)) = []"
    using t1 h1 unfolding Let_def by blast
  have b: "overlay_visible (flush ?c)"
    using t1 h2 unfolding Let_def by blast
  have c: "overlay_hidden (flush unmapped_state) \<and> phaseTimer (flush unmapped_state) = None"
    using t2 h3 unfolding Let_def by blast
  have d: "overlay_hidden (scheduleMeasurement ?o blurred_state)"
    using t3 h4 by blast
  have e: "cursor (scheduleMeasurement ?o ?c) = cursor ?c"
    using t1 h2 by blast
  from a b c d e h1 h2 h3 h4 show ?thesis by blast
qed

subsection \<open>The blink phase\<close>

lemma hideCursor_blink: "blink_inv T w \<Longrightarrow> blink_inv T (hideCursor w)"
  by (cases "phaseTimer w")
     (simp_all add: blink_inv_def dimmed_def hideCursor_simps clearTimeout_simps)

lemma restartPhaseTimer_blink: "blink_inv T w \<Longrightarrow> blink_inv T (restartPhaseTimer w)"
  by (cases "phaseTimer w")
     (auto simp add: blink_inv_def dimmed_def restartPhaseTimer_simps)

lemma positioned_blink: "blink_inv T w \<Longrightarrow> blink_inv T (positioned r hr h w)"
  by (simp add: blink_inv_def dimmed_def positioned_def)

lemma lastHead_update_blink: "blink_inv T (w\<lparr>lastHead := x\<rparr>) = blink_inv T w"
  by (simp add: blink_inv_def dimmed_def)

lemma view_update_blink: "blink_inv T (w\<lparr>view := v\<rparr>) = blink_inv T w"
  by (simp add: blink_inv_def dimmed_def)

lemma scheduleMeasurement_blink:
  "blink_inv T w \<Longrightarrow> blink_inv T (scheduleMeasurement opts w)"
proof (cases "hasFocus (view w) \<and> main_empty (view w)")
  case True
  assume "blink_inv T w"
  with True show ?thesis
    by (simp add: scheduleMeasurement_request blink_inv_def dimmed_def)
next
  case False
  assume "blink_inv T w"
  with False show ?thesis
    by (simp add: scheduleMeasurement_hide lastHead_update_blink hideCursor_blink)
qed

lemma applyMeasurement_blink:
  assumes "blink_inv T w"
  shows "blink_inv T (applyMeasurement m w)"
proof -
  consider (hide) "\<not> visible m \<or> rect m = None \<or> hostRect m = None"
    | (skip) r hr where "visible m" "rect m = Some r" "hostRect m = Some hr"
        "\<not> forcePosition (options m)" "lastHead w = Some (head m)"
    | (move) r hr where "visible m" "rect m = Some r" "hostRect m = Some hr"
        "forcePosition (options m) \<or> lastHead w \<noteq> Some (head m)"
    by (cases "rect m"; cases "hostRect m") auto
  then show ?thesis
  proof cases
    case hide
    then show ?thesis
      by (simp add: applyMeasurement_hide lastHead_update_blink hideCursor_blink assms)
  next
    case skip
    then show ?thesis by (simp add: applyMeasurement_skip assms)
  next
    case move
    show ?thesis
      by (simp add: applyMeasurement_move [OF move] positioned_blink restartPhaseTimer_blink
          assms)
  qed
qed

lemma readMeasurement_blink: "blink_inv T w \<Longrightarrow> blink_inv T (snd (readMeasurement w))"
  by (simp add: readMeasurement_snd blink_inv_def dimmed_def)

lemma flush_blink: "blink_inv T w \<Longrightarrow> blink_inv T (flush w)"
  by (cases "measureRequests (view w) = 0")
     (simp_all add: flush_idle flush_run Let_def view_update_blink applyMeasurement_blink
        readMeasurement_blink)

lemma fireTimeout_blink:
  assumes "blink_inv T w"
  shows "blink_inv T (fireTimeout t w)"
proof (cases "find (\<lambda>p. fst p = t) (timeouts (window w))")
  case None
  then show ?thesis using assms by (simp add: fireTimeout_def)
next
  case (Some p)
  then have "p \<in> set (timeouts (window w))"
    by (auto simp add: find_Some_iff)
  with assms have "T \<le> snd p" by (simp add: blink_inv_def)
  then have "snd p \<le> now (window w) \<Longrightarrow>
      blink_inv T (phaseCallback (w\<lparr>window := clearTimeout t (window w)\<rparr>))"
    using assms by (simp add: blink_inv_def phaseCallback_def clearTimeout_simps)
  then show ?thesis
    using Some assms by (simp add: fireTimeout_def)
qed

lemma destroy_blink: "blink_inv T w \<Longrightarrow> blink_inv T (destroy w)"
  by (cases "phaseTimer w")
     (simp_all add: blink_inv_def dimmed_def destroy_simps clearTimeout_simps
        fold_removeEventListener)

lemma step_blink: "blink_inv T w \<Longrightarrow> blink_inv T (step e w)"
proof (cases e)
  case AnimationFrame
  assume a: "blink_inv T w"
  then have "blink_inv T (w\<lparr>window := (window w)\<lparr>frames := frames (window w) - 1\<rparr>\<rparr>)"
    by (simp add: blink_inv_def dimmed_def)
  with a show ?thesis
    by (simp add: AnimationFrame selectionFrame_def scheduleMeasurement_blink)
next
  case SelectionChange
  assume "blink_inv T w"
  then show ?thesis
    by (simp add: SelectionChange onSelectionChange_def requestAnimationFrame_def
        blink_inv_def dimmed_def)
next
  case (Tick d)
  assume "blink_inv T w"
  then show ?thesis by (simp add: Tick blink_inv_def dimmed_def)
qed (simp_all add: onScroll_def onResizeObserved_def onWindowResize_def onFocus_def onBlur_def
      update_def scheduleMeasurement_blink hideCursor_blink destroy_blink flush_blink
      fireTimeout_blink view_update_blink)

lemma run_blink: "blink_inv T w \<Longrightarrow> blink_inv T (run es w)"
  by (induction es arbitrary: w) (simp_all add: step_blink)

lemma restarted_blink:
  assumes "timer_inv w"
  shows "timeouts (window (restartPhaseTimer w)) =
           [(nextTimer (window w), now (window w) + PHASE_DELAY)]"
    and "blink_inv (now (window w) + PHASE_DELAY) (restartPhaseTimer w)"
proof -
  have e: "(case phaseTimer w of
           None \<Rightarrow> timeouts (window w)
         | Some t \<Rightarrow> filter (\<lambda>p. fst p \<noteq> t) (timeouts (window w))) = []"
    using assms
    by (cases "phaseTimer w") (simp_all add: timer_inv_def single_timeout_filter)
  then show "timeouts (window (restartPhaseTimer w)) =
           [(nextTimer (window w), now (window w) + PHASE_DELAY)]"
    by (simp add: restartPhaseTimer_simps)
  with e show "blink_inv (now (window w) + PHASE_DELAY) (restartPhaseTimer w)"
    by (simp add: blink_inv_def dimmed_def restartPhaseTimer_simps)
qed

lemma restarted_fires:
  assumes "timeouts (window w) = [(t, now (window w) + PHASE_DELAY)]"
  shows "dimmed (run [Tick PHASE_DELAY, Timeout t] w)"
  using assms
  by (simp add: fireTimeout_def phaseCallback_def dimmed_def classList_add_def)

text \<open>
  Claim C5 says that every visible write restarts the blink timer exactly when
  restart-phase was consumed or the head changed. A write with restart-phase but
  without force-position, for the remembered head, returns before the timer is
  looked at: after the timer has fired, a selection-change event, its animation
  frame and the flush hand the write a visible snapshot with restart-phase set,
  and the overlay stays dimmed with no timer pending.
\<close>

theorem restart_intent_skipped_counterexample:
  "(case measured (view reselected_state) of
      None \<Rightarrow> False
    | Some m \<Rightarrow> visible m \<and> restartPhase (options m) \<and> head m = 0)
   \<and> lastHead dimmed_state = Some 0
   \<and> dimmed dimmed_state \<and> phaseTimer dimmed_state = None
   \<and> dimmed reselected_state \<and> phaseTimer reselected_state = None
   \<and> timeouts (window reselected_state) = []"
  by (simp add: dimmed_def example_defs model_defs)

text \<open>
  Claim C5, amended. In every visible write, from a state whose only pending
  timeout is the one the handle names, the blink timer is restarted exactly when
  the head differs from the remembered head, or restart-phase was consumed
  together with force-position. When it is restarted, the dimmed class is removed
  at once; the timeout set then is the only one pending, due one delay of 200
  after the write; whatever happens next, the overlay is not dimmed before that
  time; and it is dimmed when the timeout fires at that time. When it is not
  restarted (in particular in a forced write for the remembered head without
  restart-phase) the class list, the timer handle and the window's timeouts are
  as before.
\<close>

theorem visible_write_blink_phase:
  assumes "visible m" and "rect m = Some r" and "hostRect m = Some hr" and "timer_inv w"
  shows "let w' = applyMeasurement m w;
             restarted = (lastHead w \<noteq> Some (head m)
                          \<or> (forcePosition (options m) \<and> restartPhase (options m)))
         in (restarted \<longrightarrow>
               \<not> dimmed w'
             \<and> phaseTimer w' = Some (nextTimer (window w))
             \<and> timeouts (window w') = [(nextTimer (window w), now (window w) + PHASE_DELAY)]
             \<and> (now (window (run es w')) < now (window w) + PHASE_DELAY \<longrightarrow> \<not> dimmed (run es w'))
             \<and> dimmed (run [Tick PHASE_DELAY, Timeout (nextTimer (window w))] w'))
          \<and> (\<not> restarted \<longrightarrow>
               classList (cursor w') = classList (cursor w)
             \<and> phaseTimer w' = phaseTimer w
             \<and> window w' = window w)"
proof (cases "lastHead w \<noteq> Some (head m)
              \<or> (forcePosition (options m) \<and> restartPhase (options m))")
  case True
  let ?p = "positioned r hr (head m) w"
  from True have mv: "forcePosition (options m) \<or> lastHead w \<noteq> Some (head m)" by auto
  from True have w': "applyMeasurement m w = restartPhaseTimer ?p"
    by (auto simp add: applyMeasurement_move [OF assms(1,2,3) mv])
  have tp: "timer_inv ?p" using assms(4) by (simp add: positioned_inv)
  have wp: "window ?p = window w" by (simp add: positioned_def)
  note rb = restarted_blink [OF tp, unfolded wp]
  have now': "now (window (applyMeasurement m w)) = now (window w)"
    by (simp add: w' restartPhaseTimer_simps wp)
  have "blink_inv (now (window w) + PHASE_DELAY) (run es (applyMeasurement m w))"
    unfolding w' by (rule run_blink) (rule rb(2))
  then have later: "now (window (run es (applyMeasurement m w))) < now (window w) + PHASE_DELAY
      \<longrightarrow> \<not> dimmed (run es (applyMeasurement m w))"
    by (simp add: blink_inv_def)
  have fires: "dimmed (run [Tick PHASE_DELAY, Timeout (nextTimer (window w))]
      (applyMeasurement m w))"
    by (rule restarted_fires) (simp add: w' rb(1) restartPhaseTimer_window(2) wp)
  have "\<not> dimmed (applyMeasurement m w)"
    by (simp add: w' dimmed_def restartPhaseTimer_simps)
  moreover have "phaseTimer (applyMeasurement m w) = Some (nextTimer (window w))"
    by (simp add: w' restartPhaseTimer_simps wp)
  moreover have "timeouts (window (applyMeasurement m w)) =
      [(nextTimer (window w), now (window w) + PHASE_DELAY)]"
    by (simp add: w' rb(1))
  ultimately show ?thesis
    using True later fires by (simp add: Let_def)
next
  case False
  then have h: "lastHead w = Some (head m)" by simp
  show ?thesis
  proof (cases "forcePosition (options m)")
    case True
    with False have nr: "\<not> restartPhase (options m)" by simp
    from True have mv: "forcePosition (options m) \<or> lastHead w \<noteq> Some (head m)" by simp
    have "applyMeasurement m w = positioned r hr (head m) w"
      using nr h by (simp add: applyMeasurement_move [OF assms(1,2,3) mv])
    then have "classList (cursor (applyMeasurement m w)) = classList (cursor w)"
      "phaseTimer (applyMeasurement m w) = phaseTimer w"
      "window (applyMeasurement m w) = window w"
      by (simp_all add: positioned_def)
    with False show ?thesis unfolding Let_def by blast
  next
    case nf: False
    have "applyMeasurement m w = w"
      using assms(1,2,3) nf h by (rule applyMeasurement_skip)
    with False nf show ?thesis unfolding Let_def by simp
  qed
qed

theorem visible_write_blink_phase_witness:
  "visible moved_snapshot \<and> rect moved_snapshot = Some example_rect
   \<and> hostRect moved_snapshot = Some example_hostRect \<and> timer_inv dimmed_state
   \<and> lastHead dimmed_state \<noteq> Some (head moved_snapshot)
   \<and> dimmed dimmed_state
   \<and> \<not> dimmed (applyMeasurement moved_snapshot dimmed_state)
   \<and> phaseTimer (applyMeasurement moved_snapshot dimmed_state) = Some 2
   \<and> timeouts (window (applyMeasurement moved_snapshot dimmed_state)) = [(2, 400)]
   \<and> now (window (run [Tick 199, Timeout 2] (applyMeasurement moved_snapshot dimmed_state))) < 400
   \<and> \<not> dimmed (run [Tick 199, Timeout 2] (applyMeasurement moved_snapshot dimmed_state))
   \<and> dimmed (run [Tick 200, Timeout 2] (applyMeasurement moved_snapshot dimmed_state))
   \<and> visible scroll_snapshot \<and> lastHead dimmed_state = Some (head scroll_snapshot)
   \<and> forcePosition (options scroll_snapshot) \<and> \<not> restartPhase (options scroll_snapshot)
   \<and> dimmed (applyMeasurement scroll_snapshot dimmed_state)
   \<and> phaseTimer (applyMeasurement scroll_snapshot dimmed_state) = None"
proof -
  let ?w = "applyMeasurement moved_snapshot dimmed_state"
  have h: "visible moved_snapshot" "rect moved_snapshot = Some example_rect"
    "hostRect moved_snapshot = Some example_hostRect" "timer_inv dimmed_state"
    by (simp_all add: timer_inv_def example_defs model_defs)
  have g: "visible scroll_snapshot" "rect scroll_snapshot = Some example_rect"
    "hostRect scroll_snapshot = Some example_hostRect"
    by (simp_all add: example_defs)
  have e: "lastHead dimmed_state \<noteq> Some (head moved_snapshot)"
    "lastHead dimmed_state = Some (head scroll_snapshot)"
    "forcePosition (options scroll_snapshot)" "\<not> restartPhase (options scroll_snapshot)"
    "dimmed dimmed_state" "phaseTimer dimmed_state = None"
    "nextTimer (window dimmed_state) = 2" "now (window dimmed_state) + PHASE_DELAY = 400"
    "classList (cursor dimmed_state) = [VIRTUAL_CURSOR_CLASS, VIRTUAL_CURSOR_PHASE_CLASS]"
    by (simp_all add: dimmed_def example_defs model_defs)
  have d: "PHASE_DELAY = 200" "now (window dimmed_state) + 200 = 400"
    by (simp_all add: example_defs model_defs)
  note t1 = visible_write_blink_phase [OF h, where es = "[Tick 199, Timeout 2]"]
  note t2 = visible_write_blink_phase [OF g h(4), where es = "[]"]
  have n: "now (window (run [Tick 199, Timeout 2] ?w)) < 400"
    by (simp add: example_defs model_defs)
  have a: "\<not> dimmed ?w \<and> phaseTimer ?w = Some 2 \<and> timeouts (window ?w) = [(2, 400)]
      \<and> \<not> dimmed (run [Tick 199, Timeout 2] ?w) \<and> dimmed (run [Tick 200, Timeout 2] ?w)"
    using t1 e(1) n unfolding Let_def e(7) e(8) d by blast
  have b: "classList (cursor (applyMeasurement scroll_snapshot dimmed_state)) =
             classList (cursor dimmed_state)
           \<and> phaseTimer (applyMeasurement scroll_snapshot dimmed_state) = phaseTimer dimmed_state"
    using t2 e(2,3,4) unfolding Let_def by blast
  then have b': "dimmed (applyMeasurement scroll_snapshot dimmed_state)
      \<and> phaseTimer (applyMeasurement scroll_snapshot dimmed_state) = None"
    using e(5,6) by (simp add: dimmed_def)
  from a b' h g e n show ?thesis by blast
qed

end
